theory Spec2Isabelle
  imports Main "HOL-Library.Word"
begin

unbundle bit_operations_syntax

section \<open>DigSig: the LSM hooks of security/digsig/digsig.c\<close>

text \<open>
  A shallow embedding of \<^verbatim>\<open>security/digsig/digsig.c\<close>. The hooks run on the calling
  thread; the semaphore \<^verbatim>\<open>digsig_sem\<close> and the inode spinlock only serialise them, so the
  model is sequential and passes the module's state explicitly.

  Integer types follow an LP64 kernel: \<^verbatim>\<open>unsigned long\<close> is a \<open>64 word\<close>,
  \<^verbatim>\<open>unsigned int\<close> a \<open>32 word\<close>, \<^verbatim>\<open>loff_t\<close> and \<^verbatim>\<open>int\<close> results are read as
  \<open>int\<close>. Buffers are byte lists.
\<close>

subsection \<open>Constants\<close>

type_synonym byte = "8 word"

text \<open>The errno values of the kernel headers.\<close>

definition EPERM :: int where "EPERM = 1"
definition ENOMEM :: int where "ENOMEM = 12"
definition EINVAL :: int where "EINVAL = 22"
definition ETXTBSY :: int where "ETXTBSY = 26"

text \<open>\<^verbatim>\<open>VM_EXEC\<close> of linux/mm.h and \<^verbatim>\<open>MAY_WRITE\<close> of linux/fs.h.\<close>

definition VM_EXEC :: "64 word" where "VM_EXEC = 4"
definition MAY_WRITE :: "32 word" where "MAY_WRITE = 2"

text \<open>
  The constants of \<^verbatim>\<open>digsig_common.h\<close> and the two build options are not part of
  digsig.c; they are parameters of the model.
\<close>

record config =
  DIGSIG_ELF_SIG_SIZE :: nat
  DIGSIG_ELF_READ_BLOCK_SIZE :: nat
  DIGSIG_ELF_SIG_SECTION :: "32 word"
  DIGSIG_BSIGN_INFOS :: nat
  SECURITY_DIGSIG_DEBUG :: bool
  RESTRICT_USB_DEVICES :: bool

text \<open>\<^verbatim>\<open>DIGSIG_MODE\<close>: 0 (permissive) in a debug build, \<^verbatim>\<open>-EPERM\<close> (restrictive) otherwise.\<close>

definition DIGSIG_MODE :: "config \<Rightarrow> int" where
  "DIGSIG_MODE cfg = (if SECURITY_DIGSIG_DEBUG cfg then 0 else - EPERM)"

subsection \<open>The host: allocation, file reads, revocation list, crypto context\<close>

datatype alloc_site = ElfHeader | SectionTable | SignatureBuffer | ReadBlocks

text \<open>
  What the hooks call and do not own. \<open>kernel_read h off cnt\<close> is the result of
  \<^verbatim>\<open>kernel_read(file, off, buf, cnt)\<close>: the return value and the contents of the
  \<open>cnt\<close>-byte buffer afterwards (bytes beyond the return value are whatever the buffer
  held). \<open>kmalloc\<close> says whether the allocation at a call site succeeds. The crypto
  context is abstract: its state is the list of blocks it was fed so far.
\<close>

record host =
  kmalloc :: "alloc_site \<Rightarrow> bool"
  kernel_read :: "nat \<Rightarrow> nat \<Rightarrow> int \<times> byte list"
  i_size_read :: int
  digsig_is_revoked_sig :: "byte list \<Rightarrow> bool"
  digsig_sign_verify_init :: bool
  digsig_sign_verify_update :: "byte list list \<Rightarrow> byte list \<Rightarrow> int"
  digsig_sign_verify_final :: "byte list list \<Rightarrow> byte list \<Rightarrow> int"

text \<open>The calls a hook makes to the host, in order.\<close>

datatype event =
    Kmalloc alloc_site
  | KernelRead nat nat
  | VerifyInit
  | VerifyUpdate "byte list"
  | VerifyFinal "byte list"

fun fed :: "event list \<Rightarrow> byte list list" where
  "fed [] = []"
| "fed (VerifyUpdate b # es) = b # fed es"
| "fed (e # es) = fed es"

subsection \<open>digsig_verify_signature\<close>

text \<open>\<^verbatim>\<open>memset(buf + start, c, n)\<close> on a buffer; only the bytes of the buffer are modelled.\<close>

definition memset :: "byte list \<Rightarrow> nat \<Rightarrow> byte \<Rightarrow> nat \<Rightarrow> byte list" where
  "memset buf start c n =
     take start buf @ replicate (min n (length buf - start)) c @ drop (start + n) buf"

text \<open>
  Lines 285-297, the body of the loop between the read and the update:
  \<^verbatim>\<open>lower\<close>, \<^verbatim>\<open>upper\<close> and \<^verbatim>\<open>offset\<close> are \<^verbatim>\<open>unsigned int\<close>, \<^verbatim>\<open>sh_offset\<close> is
  \<^verbatim>\<open>unsigned long\<close>.
\<close>

definition zero_patch :: "config \<Rightarrow> 64 word \<Rightarrow> 32 word \<Rightarrow> byte list \<Rightarrow> byte list" where
  "zero_patch cfg sh_offset offset read_blocks =
     (let lower = (ucast sh_offset :: 32 word);
          upper = (ucast (sh_offset + word_of_int (int (DIGSIG_ELF_SIG_SIZE cfg))) :: 32 word);
          block_end = offset + word_of_int (int (DIGSIG_ELF_READ_BLOCK_SIZE cfg))
      in if lower < block_end \<and> offset < upper then
           (let lower' = (if offset > lower then offset else lower);
                upper' = (if block_end < upper then block_end else upper)
            in memset read_blocks (unat (lower' - offset)) 0 (unat (upper' - lower')))
         else read_blocks)"

datatype loop_exit = GotoOut int | LoopEnd | OutOfFuel

text \<open>
  The \<^verbatim>\<open>for\<close> loop of lines 270-306. \<^verbatim>\<open>offset\<close> is a 32-bit counter compared with the
  64-bit \<^verbatim>\<open>i_size\<close>, so the loop need not end: the first argument bounds the number
  of iterations and \<open>OutOfFuel\<close> says the bound was reached.
\<close>

fun verify_loop ::
  "nat \<Rightarrow> config \<Rightarrow> host \<Rightarrow> 64 word \<Rightarrow> 32 word \<Rightarrow> event list \<Rightarrow> loop_exit \<times> event list"
where
  "verify_loop 0 cfg h sh_offset offset tr =
     (if uint offset < i_size_read h then (OutOfFuel, tr) else (LoopEnd, tr))"
| "verify_loop (Suc n) cfg h sh_offset offset tr =
     (if uint offset < i_size_read h then
        (let (retval, read_blocks) =
               kernel_read h (unat offset) (DIGSIG_ELF_READ_BLOCK_SIZE cfg);
             tr1 = tr @ [KernelRead (unat offset) (DIGSIG_ELF_READ_BLOCK_SIZE cfg)]
         in if retval \<le> 0 then (GotoOut retval, tr1)
            else
              (let block = take (nat retval) (zero_patch cfg sh_offset offset read_blocks);
                   retval' = digsig_sign_verify_update h (fed tr1) block;
                   tr2 = tr1 @ [VerifyUpdate block]
               in if retval' < 0 then (GotoOut retval', tr2)
                  else verify_loop n cfg h sh_offset
                         (offset + word_of_int (int (DIGSIG_ELF_READ_BLOCK_SIZE cfg))) tr2))
      else (LoopEnd, tr))"

text \<open>
  The result is the return value, \<open>None\<close> when the loop did not end within the bound,
  and the host calls made.
\<close>

definition digsig_verify_signature ::
  "nat \<Rightarrow> config \<Rightarrow> host \<Rightarrow> byte list \<Rightarrow> 64 word \<Rightarrow> int option \<times> event list"
where
  "digsig_verify_signature fuel cfg h sig_orig sh_offset =
     (if digsig_is_revoked_sig h sig_orig then (Some (- EPERM), [])
      else if \<not> digsig_sign_verify_init h then (Some (- ENOMEM), [VerifyInit])
      else if \<not> kmalloc h ReadBlocks then (Some (- ENOMEM), [VerifyInit, Kmalloc ReadBlocks])
      else
        (case verify_loop fuel cfg h sh_offset 0 [VerifyInit, Kmalloc ReadBlocks] of
           (GotoOut retval, tr) \<Rightarrow> (Some retval, tr)
         | (OutOfFuel, tr) \<Rightarrow> (None, tr)
         | (LoopEnd, tr) \<Rightarrow>
             (let sig = drop (DIGSIG_BSIGN_INFOS cfg) sig_orig;
                  retval = digsig_sign_verify_final h (fed tr) sig
              in (Some (if retval \<noteq> 0 then - EPERM else retval), tr @ [VerifyFinal sig]))))"

subsection \<open>ELF structures\<close>

text \<open>
  The structures of linux/elf.h, with the fields digsig.c reads. The header buffer is
  cast between \<^verbatim>\<open>struct elf64_hdr\<close> and \<^verbatim>\<open>struct elf32_hdr\<close>, so a structure is
  decoded from the bytes of the buffer at the field offsets of the ELF layout
  (little-endian, as on x86).
\<close>

definition le_nat :: "byte list \<Rightarrow> nat" where
  "le_nat bs = foldr (\<lambda>b n. unat b + 256 * n) bs 0"

definition field :: "byte list \<Rightarrow> nat \<Rightarrow> nat \<Rightarrow> nat" where
  "field buf off len = le_nat (take len (drop off buf))"

record elf32_hdr =
  e_ident32 :: "byte list"
  e_shoff32 :: "32 word"
  e_shentsize32 :: "16 word"
  e_shnum32 :: "16 word"

record elf64_hdr =
  e_ident64 :: "byte list"
  e_shoff64 :: "64 word"
  e_shentsize64 :: "16 word"
  e_shnum64 :: "16 word"

record Elf32_Shdr =
  sh_type32 :: "32 word"
  sh_offset32 :: "32 word"
  sh_size32 :: "32 word"

record Elf64_Shdr =
  sh_type64 :: "32 word"
  sh_offset64 :: "64 word"
  sh_size64 :: "64 word"

definition as_elf32_hdr :: "byte list \<Rightarrow> elf32_hdr" where
  "as_elf32_hdr buf =
     \<lparr> e_ident32 = take 16 buf,
       e_shoff32 = word_of_int (int (field buf 32 4)),
       e_shentsize32 = word_of_int (int (field buf 46 2)),
       e_shnum32 = word_of_int (int (field buf 48 2)) \<rparr>"

definition as_elf64_hdr :: "byte list \<Rightarrow> elf64_hdr" where
  "as_elf64_hdr buf =
     \<lparr> e_ident64 = take 16 buf,
       e_shoff64 = word_of_int (int (field buf 40 8)),
       e_shentsize64 = word_of_int (int (field buf 58 2)),
       e_shnum64 = word_of_int (int (field buf 60 2)) \<rparr>"

definition sizeof_elf64_hdr :: nat where "sizeof_elf64_hdr = 64"
definition sizeof_Elf32_Shdr :: nat where "sizeof_Elf32_Shdr = 40"
definition sizeof_Elf64_Shdr :: nat where "sizeof_Elf64_Shdr = 64"

text \<open>\<^verbatim>\<open>elf_shdata[i]\<close> for a section table held in a byte buffer.\<close>

definition Elf32_Shdr_at :: "byte list \<Rightarrow> nat \<Rightarrow> Elf32_Shdr" where
  "Elf32_Shdr_at elf_shdata i =
     \<lparr> sh_type32 = word_of_int (int (field elf_shdata (i * sizeof_Elf32_Shdr + 4) 4)),
       sh_offset32 = word_of_int (int (field elf_shdata (i * sizeof_Elf32_Shdr + 16) 4)),
       sh_size32 = word_of_int (int (field elf_shdata (i * sizeof_Elf32_Shdr + 20) 4)) \<rparr>"

definition Elf64_Shdr_at :: "byte list \<Rightarrow> nat \<Rightarrow> Elf64_Shdr" where
  "Elf64_Shdr_at elf_shdata i =
     \<lparr> sh_type64 = word_of_int (int (field elf_shdata (i * sizeof_Elf64_Shdr + 4) 4)),
       sh_offset64 = word_of_int (int (field elf_shdata (i * sizeof_Elf64_Shdr + 24) 8)),
       sh_size64 = word_of_int (int (field elf_shdata (i * sizeof_Elf64_Shdr + 32) 8)) \<rparr>"

definition ELFMAG :: "byte list" where "ELFMAG = [0x7f, 0x45, 0x4c, 0x46]"
definition SELFMAG :: nat where "SELFMAG = 4"
definition EI_CLASS :: nat where "EI_CLASS = 4"
definition ELFCLASS32 :: nat where "ELFCLASS32 = 1"

subsection \<open>Header and section table\<close>

definition elf_sanity_check32 :: "elf32_hdr \<Rightarrow> int" where
  "elf_sanity_check32 elf_hdr =
     (if take SELFMAG (e_ident32 elf_hdr) \<noteq> ELFMAG then - 2
      else if e_shoff32 elf_hdr = 0 then - 1
      else if unat (e_shentsize32 elf_hdr) \<noteq> sizeof_Elf32_Shdr then - 1
      else if unat (e_shnum32 elf_hdr) > 65536 div sizeof_Elf32_Shdr then - 1
      else 0)"

definition elf_sanity_check64 :: "elf64_hdr \<Rightarrow> int" where
  "elf_sanity_check64 elf_hdr =
     (if take SELFMAG (e_ident64 elf_hdr) \<noteq> ELFMAG then - 2
      else if e_shoff64 elf_hdr = 0 then - 1
      else if unat (e_shentsize64 elf_hdr) \<noteq> sizeof_Elf64_Shdr then - 1
      else if unat (e_shnum64 elf_hdr) > 65536 div sizeof_Elf64_Shdr then - 1
      else 0)"

text \<open>A pointer result: \<^verbatim>\<open>NULL\<close> (which is \<^verbatim>\<open>NONELF_PERM\<close>), \<^verbatim>\<open>ERR_PTR(e)\<close> or a buffer.\<close>

datatype 'a ptr_result = NULL | ERR_PTR int | Ptr 'a

text \<open>
  The return value of the header's \<^verbatim>\<open>kernel_read\<close> is not looked at: the checks run on
  whatever the 64-byte buffer holds afterwards.
\<close>

definition read_elf_header :: "host \<Rightarrow> byte list ptr_result \<times> event list" where
  "read_elf_header h =
     (if \<not> kmalloc h ElfHeader then (ERR_PTR (- ENOMEM), [Kmalloc ElfHeader])
      else
        (let elf_ex = snd (kernel_read h 0 sizeof_elf64_hdr);
             retval = (if field elf_ex EI_CLASS 1 = ELFCLASS32
                       then elf_sanity_check32 (as_elf32_hdr elf_ex)
                       else elf_sanity_check64 (as_elf64_hdr elf_ex))
         in (if retval \<noteq> 0 then (if retval = - 1 then ERR_PTR (- EINVAL) else NULL)
             else Ptr elf_ex,
             [Kmalloc ElfHeader, KernelRead 0 sizeof_elf64_hdr])))"

text \<open>\<open>Inl e\<close> is \<^verbatim>\<open>ERR_PTR(e)\<close>; this function never returns \<^verbatim>\<open>NULL\<close>.\<close>

definition read_section_header ::
  "host \<Rightarrow> 64 word \<Rightarrow> 64 word \<Rightarrow> (int + byte list) \<times> event list"
where
  "read_section_header h sh_size sh_off =
     (if \<not> kmalloc h SectionTable then (Inl (- ENOMEM), [Kmalloc SectionTable])
      else
        (let (retval, elf_shdata) = kernel_read h (unat sh_off) (unat sh_size)
         in (if retval < 0 \<or> (word_of_int retval :: 64 word) \<noteq> sh_size
             then Inl (- EINVAL) else Inr elf_shdata,
             [Kmalloc SectionTable, KernelRead (unat sh_off) (unat sh_size)])))"

subsection \<open>Locating the signature\<close>

definition digsig_read_signature ::
  "config \<Rightarrow> host \<Rightarrow> 64 word \<Rightarrow> byte list option \<times> event list"
where
  "digsig_read_signature cfg h offset =
     (if \<not> kmalloc h SignatureBuffer then (None, [Kmalloc SignatureBuffer])
      else
        (let (retval, buffer) = kernel_read h (unat offset) (DIGSIG_ELF_SIG_SIZE cfg)
         in (if retval \<noteq> int (DIGSIG_ELF_SIG_SIZE cfg) then None else Some buffer,
             [Kmalloc SignatureBuffer,
              KernelRead (unat offset) (DIGSIG_ELF_SIG_SIZE cfg)])))"

text \<open>The \<^verbatim>\<open>while\<close> loops of lines 179-182 and 207-210: the index the scan stops at.\<close>

function scan32 :: "config \<Rightarrow> nat \<Rightarrow> byte list \<Rightarrow> nat \<Rightarrow> nat" where
  "scan32 cfg shnum elf_shdata i =
     (if i < shnum \<and> sh_type32 (Elf32_Shdr_at elf_shdata i) \<noteq> DIGSIG_ELF_SIG_SECTION cfg
      then scan32 cfg shnum elf_shdata (i + 1) else i)"
  by pat_completeness auto
termination
  by (relation "measure (\<lambda>(cfg, shnum, elf_shdata, i). shnum - i)") auto

function scan64 :: "config \<Rightarrow> nat \<Rightarrow> byte list \<Rightarrow> nat \<Rightarrow> nat" where
  "scan64 cfg shnum elf_shdata i =
     (if i < shnum \<and> sh_type64 (Elf64_Shdr_at elf_shdata i) \<noteq> DIGSIG_ELF_SIG_SECTION cfg
      then scan64 cfg shnum elf_shdata (i + 1) else i)"
  by pat_completeness auto
termination
  by (relation "measure (\<lambda>(cfg, shnum, elf_shdata, i). shnum - i)") auto

declare scan32.simps [simp del] scan64.simps [simp del]

text \<open>The result is the signature buffer with the value stored to \<^verbatim>\<open>*sh_offset\<close>.\<close>

definition digsig_find_signature32 ::
  "config \<Rightarrow> host \<Rightarrow> elf32_hdr \<Rightarrow> byte list \<Rightarrow> (byte list \<times> 64 word) option \<times> event list"
where
  "digsig_find_signature32 cfg h elf_ex elf_shdata =
     (let i = scan32 cfg (unat (e_shnum32 elf_ex)) elf_shdata 0;
          sh = Elf32_Shdr_at elf_shdata i
      in if i = unat (e_shnum32 elf_ex) then (None, [])
         else if sh_type32 sh \<noteq> DIGSIG_ELF_SIG_SECTION cfg then (None, [])
         else if sh_size32 sh \<noteq> word_of_int (int (DIGSIG_ELF_SIG_SIZE cfg)) then (None, [])
         else
           (case digsig_read_signature cfg h (ucast (sh_offset32 sh)) of
              (None, tr) \<Rightarrow> (None, tr)
            | (Some buffer, tr) \<Rightarrow> (Some (buffer, ucast (sh_offset32 sh)), tr)))"

definition digsig_find_signature64 ::
  "config \<Rightarrow> host \<Rightarrow> elf64_hdr \<Rightarrow> byte list \<Rightarrow> (byte list \<times> 64 word) option \<times> event list"
where
  "digsig_find_signature64 cfg h elf_ex elf_shdata =
     (let i = scan64 cfg (unat (e_shnum64 elf_ex)) elf_shdata 0;
          sh = Elf64_Shdr_at elf_shdata i
      in if i = unat (e_shnum64 elf_ex) then (None, [])
         else if sh_type64 sh \<noteq> DIGSIG_ELF_SIG_SECTION cfg then (None, [])
         else if sh_size64 sh \<noteq> word_of_int (int (DIGSIG_ELF_SIG_SIZE cfg)) then (None, [])
         else
           (case digsig_read_signature cfg h (sh_offset64 sh) of
              (None, tr) \<Rightarrow> (None, tr)
            | (Some buffer, tr) \<Rightarrow> (Some (buffer, sh_offset64 sh), tr)))"

subsection \<open>Module state\<close>

text \<open>
  An open file, with what the hooks reach through it: \<^verbatim>\<open>f_dentry\<close> (present or
  \<^verbatim>\<open>NULL\<close>), \<^verbatim>\<open>f_dentry->d_name.name\<close>, the inode \<^verbatim>\<open>f_dentry->d_inode\<close> (its number),
  the name of the filesystem type of its superblock and the name of the bus of its
  block device. \<open>f_ident\<close> tells two open files of one inode apart.
\<close>

record struct_file =
  f_ident :: nat
  f_dentry :: bool
  d_name :: "string option"
  d_inode :: nat
  s_type_name :: string
  bus_name :: string

text \<open>
  \<open>g_init\<close> is the flag of line 71. \<open>i_security\<close> and \<open>f_security\<close> are the fields the
  module keeps on inodes and files, read as \<^verbatim>\<open>unsigned long\<close>; \<open>i_writecount\<close> is the
  kernel's count of writers of an inode.
\<close>

record dstate =
  g_init :: bool
  i_security :: "nat \<Rightarrow> 64 word"
  i_writecount :: "nat \<Rightarrow> int"
  f_security :: "struct_file \<Rightarrow> 64 word"
  sig_cache :: "nat set"

text \<open>
  Modelled from the spec: the validation cache of \<^verbatim>\<open>digsig_cache.c\<close> is not in the
  sources. The spec gives it three operations on file identities: \<open>lookup(id)\<close>,
  \<open>insert(id)\<close> (idempotent) and \<open>invalidate(id)\<close>; the cache is the set of inserted
  identities.
\<close>

definition is_cached_signature :: "dstate \<Rightarrow> nat \<Rightarrow> bool" where
  "is_cached_signature s inode = (inode \<in> sig_cache s)"

definition digsig_cache_signature :: "dstate \<Rightarrow> nat \<Rightarrow> dstate" where
  "digsig_cache_signature s inode = s\<lparr>sig_cache := insert inode (sig_cache s)\<rparr>"

definition remove_signature :: "dstate \<Rightarrow> nat \<Rightarrow> dstate" where
  "remove_signature s inode = s\<lparr>sig_cache := sig_cache s - {inode}\<rparr>"

subsection \<open>The write and unlink hooks\<close>

text \<open>The inode argument may be \<^verbatim>\<open>NULL\<close>.\<close>

definition digsig_inode_permission :: "dstate \<Rightarrow> nat option \<Rightarrow> 32 word \<Rightarrow> int \<times> dstate" where
  "digsig_inode_permission s inode mask' =
     (if \<not> g_init s then (0, s)
      else
        (case inode of
           None \<Rightarrow> (0, s)
         | Some ino \<Rightarrow>
             if mask' AND MAY_WRITE \<noteq> 0 then
               (let isec = i_security s ino
                in if isec > 0 then (- EPERM, s)
                   else if is_cached_signature s ino then (0, remove_signature s ino)
                   else (0, s))
             else (0, s)))"

definition digsig_inode_unlink :: "dstate \<Rightarrow> nat \<Rightarrow> int \<times> dstate" where
  "digsig_inode_unlink s d_inode' =
     (if \<not> g_init s then (0, s)
      else if \<not> is_cached_signature s d_inode' then (0, s)
      else (0, remove_signature s d_inode'))"

definition digsig_inode_free_security :: "dstate \<Rightarrow> nat \<Rightarrow> dstate" where
  "digsig_inode_free_security s inode =
     (if is_cached_signature s inode then remove_signature s inode else s)"

subsection \<open>The guard\<close>

definition digsig_deny_write_access :: "dstate \<Rightarrow> struct_file \<Rightarrow> int \<times> dstate" where
  "digsig_deny_write_access s file =
     (let inode = d_inode file;
          isec = i_security s inode
      in if i_writecount s inode > 0 then (- ETXTBSY, s)
         else (0, s\<lparr>i_security := (i_security s)(inode := isec + 1),
                    f_security := (f_security s)(file := 1)\<rparr>))"

definition digsig_allow_write_access :: "dstate \<Rightarrow> struct_file \<Rightarrow> dstate" where
  "digsig_allow_write_access s file =
     (let inode = d_inode file;
          isec = i_security s inode
      in s\<lparr>i_security := (i_security s)(inode := isec - 1),
           f_security := (f_security s)(file := 0)\<rparr>)"

definition digsig_file_free_security :: "dstate \<Rightarrow> struct_file \<Rightarrow> dstate" where
  "digsig_file_free_security s file =
     (if f_security s file \<noteq> 0 then digsig_allow_write_access s file else s)"

subsection \<open>digsig_mmap_file\<close>

definition digsig_fs_blacklist :: "string list" where
  "digsig_fs_blacklist = [''nfs'', ''cifs'']"

definition is_unprotected_file :: "config \<Rightarrow> struct_file \<Rightarrow> bool" where
  "is_unprotected_file cfg file =
     (if RESTRICT_USB_DEVICES cfg \<and> bus_name file = ''usb'' then True
      else s_type_name file \<in> set digsig_fs_blacklist)"

text \<open>
  Lines 626-636: the section table is read with the size and offset of the header of
  the detected class. Lines 643-650: the signature is looked for with the function of
  that class.
\<close>

definition read_section_table :: "host \<Rightarrow> byte list \<Rightarrow> (int + byte list) \<times> event list" where
  "read_section_table h elf_ex =
     (if field elf_ex EI_CLASS 1 = ELFCLASS32 then
        read_section_header h
          (word_of_int (int (unat (e_shnum32 (as_elf32_hdr elf_ex)) * sizeof_Elf32_Shdr)))
          (ucast (e_shoff32 (as_elf32_hdr elf_ex)))
      else
        read_section_header h
          (word_of_int (int (unat (e_shnum64 (as_elf64_hdr elf_ex)) * sizeof_Elf64_Shdr)))
          (e_shoff64 (as_elf64_hdr elf_ex)))"

definition find_signature ::
  "config \<Rightarrow> host \<Rightarrow> byte list \<Rightarrow> byte list \<Rightarrow> (byte list \<times> 64 word) option \<times> event list"
where
  "find_signature cfg h elf_ex elf_shdata =
     (if field elf_ex EI_CLASS 1 = ELFCLASS32
      then digsig_find_signature32 cfg h (as_elf32_hdr elf_ex) elf_shdata
      else digsig_find_signature64 cfg h (as_elf64_hdr elf_ex) elf_shdata)"

text \<open>
  Lines 603-682, from the cache lookup to the label \<^verbatim>\<open>out_file_no_buf\<close>: the return
  value (\<open>None\<close> when the verify loop did not end), \<^verbatim>\<open>allow_write_on_exit\<close>, the state
  and the host calls. \<open>die_if_elf\<close> and \<open>allow_write_on_exit\<close> are the values lines 594-601
  left.
\<close>

definition mmap_check ::
  "nat \<Rightarrow> config \<Rightarrow> host \<Rightarrow> dstate \<Rightarrow> struct_file \<Rightarrow> int \<Rightarrow> bool
     \<Rightarrow> int option \<times> bool \<times> dstate \<times> event list"
where
  "mmap_check fuel cfg h s file die_if_elf allow_write_on_exit =
     (if is_cached_signature s (d_inode file) then (Some 0, False, s, [])
      else
        (case read_elf_header h of
           (NULL, tr0) \<Rightarrow> (Some 0, allow_write_on_exit, s, tr0)
         | (ERR_PTR e, tr0) \<Rightarrow> (Some e, allow_write_on_exit, s, tr0)
         | (Ptr elf_ex, tr0) \<Rightarrow>
             if die_if_elf \<noteq> 0 then (Some die_if_elf, allow_write_on_exit, s, tr0)
             else
               (case read_section_table h elf_ex of
                  (Inl e, tr1) \<Rightarrow> (Some (- EINVAL), allow_write_on_exit, s, tr0 @ tr1)
                | (Inr elf_shdata, tr1) \<Rightarrow>
                    (case find_signature cfg h elf_ex elf_shdata of
                       (None, tr2) \<Rightarrow>
                         (Some (DIGSIG_MODE cfg), allow_write_on_exit, s, tr0 @ tr1 @ tr2)
                     | (Some (sig_orig, sh_offset), tr2) \<Rightarrow>
                         (case digsig_verify_signature fuel cfg h sig_orig sh_offset of
                            (None, tr3) \<Rightarrow>
                              (None, allow_write_on_exit, s, tr0 @ tr1 @ tr2 @ tr3)
                          | (Some retval, tr3) \<Rightarrow>
                              if retval = 0 then
                                (Some 0, False, digsig_cache_signature s (d_inode file),
                                 tr0 @ tr1 @ tr2 @ tr3)
                              else
                                (Some (- EPERM), allow_write_on_exit, s,
                                 tr0 @ tr1 @ tr2 @ tr3))))))"

text \<open>
  The hook. A call whose verify loop does not end never reaches the exit label: its
  result is \<open>None\<close> with the state as the loop left it.
\<close>

definition digsig_mmap_file ::
  "nat \<Rightarrow> config \<Rightarrow> host \<Rightarrow> dstate \<Rightarrow> struct_file option \<Rightarrow> 64 word
     \<Rightarrow> int option \<times> dstate \<times> event list"
where
  "digsig_mmap_file fuel cfg h s file' reqprot =
     (if \<not> g_init s then (Some 0, s, [])
      else if reqprot AND VM_EXEC = 0 then (Some 0, s, [])
      else
        (case file' of
           None \<Rightarrow> (Some 0, s, [])
         | Some file \<Rightarrow>
             if \<not> f_dentry file then (Some 0, s, [])
             else if d_name file = None then (Some 0, s, [])
             else if is_unprotected_file cfg file then (Some (DIGSIG_MODE cfg), s, [])
             else
               (let (die_if_elf, allow_write_on_exit, s1) =
                      (if f_security s file = 0 then
                         (let (retval, s') = digsig_deny_write_access s file
                          in if retval \<noteq> 0 then (retval, False, s') else (0, True, s'))
                       else (0, False, s));
                    (retval, allow_write_on_exit', s2, tr) =
                      mmap_check fuel cfg h s1 file die_if_elf allow_write_on_exit
                in case retval of
                     None \<Rightarrow> (None, s2, tr)
                   | Some r \<Rightarrow>
                       (Some r,
                        if allow_write_on_exit' then digsig_allow_write_access s2 file else s2,
                        tr))))"

section \<open>Concrete configurations and hosts\<close>

text \<open>
  Small instances used to run the model: a configuration with 4-byte blocks and a
  2-byte signature section (the behaviour checked does not depend on the sizes), and an
  initial module state.
\<close>

definition cfg0 :: config where
  "cfg0 = \<lparr> DIGSIG_ELF_SIG_SIZE = 2, DIGSIG_ELF_READ_BLOCK_SIZE = 4,
            DIGSIG_ELF_SIG_SECTION = 0x80736967, DIGSIG_BSIGN_INFOS = 1,
            SECURITY_DIGSIG_DEBUG = False, RESTRICT_USB_DEVICES = False \<rparr>"

definition init_state :: dstate where
  "init_state = \<lparr> g_init = False, i_security = (\<lambda>_. 0), i_writecount = (\<lambda>_. 0),
                  f_security = (\<lambda>_. 0), sig_cache = {} \<rparr>"

text \<open>A host on which every read fails and whose revocation list holds the signature \<open>[7, 7]\<close>.\<close>

definition host_revoked :: host where
  "host_revoked = \<lparr> kmalloc = (\<lambda>_. True), kernel_read = (\<lambda>off cnt. (- 5, replicate cnt 0)),
                    i_size_read = 8, digsig_is_revoked_sig = (\<lambda>sg. sg = [7, 7]),
                    digsig_sign_verify_init = True,
                    digsig_sign_verify_update = (\<lambda>hist b. 0),
                    digsig_sign_verify_final = (\<lambda>hist sg. 0) \<rparr>"

text \<open>
  A host that serves a file image: a read at \<open>off\<close> of \<open>cnt\<close> bytes returns the bytes the
  image has there (fewer at the end of the file, none beyond it) in a zeroed buffer; every
  allocation succeeds, nothing is revoked, updates succeed and the final comparison
  accepts exactly the hashed content \<open>expected\<close> with the signature bytes \<open>good\<close>.
\<close>

definition read_image :: "byte list \<Rightarrow> nat \<Rightarrow> nat \<Rightarrow> int \<times> byte list" where
  "read_image img off cnt =
     (int (length (take cnt (drop off img))),
      take cnt (drop off img) @ replicate (cnt - length (take cnt (drop off img))) 0)"

definition host_of_image :: "byte list \<Rightarrow> byte list \<Rightarrow> byte list \<Rightarrow> host" where
  "host_of_image img expected good =
     \<lparr> kmalloc = (\<lambda>_. True), kernel_read = read_image img,
       i_size_read = int (length img), digsig_is_revoked_sig = (\<lambda>_. False),
       digsig_sign_verify_init = True,
       digsig_sign_verify_update = (\<lambda>hist b. 0),
       digsig_sign_verify_final =
         (\<lambda>hist sg. if concat hist = expected \<and> sg = good then 0 else 1) \<rparr>"

text \<open>
  A 64-bit ELF image of 130 bytes: the header (section table at offset 64, entries of
  64 bytes, one entry), one section header of the signature type (offset 128, size
  \<open>sz\<close>), and two signature bytes. \<open>cfg64\<close> reads it in blocks of 128 bytes and expects a
  signature section of 2 bytes, the first of which is the bsign prefix.
\<close>

definition elf64_header :: "byte list" where
  "elf64_header =
     [0x7f, 0x45, 0x4c, 0x46, 2] @ replicate 35 0 @ [64, 0, 0, 0, 0, 0, 0, 0]
     @ replicate 10 0 @ [64, 0, 1, 0, 0, 0]"

definition sig_section_header :: "byte \<Rightarrow> byte list" where
  "sig_section_header sz =
     [0, 0, 0, 0, 0x67, 0x69, 0x73, 0x80] @ replicate 16 0 @ [128, 0, 0, 0, 0, 0, 0, 0]
     @ [sz, 0, 0, 0, 0, 0, 0, 0] @ replicate 24 0"

definition elf64_image :: "byte \<Rightarrow> byte list" where
  "elf64_image sz = elf64_header @ sig_section_header sz @ [9, 7]"

definition elf64_hashed :: "byte list" where
  "elf64_hashed = elf64_header @ sig_section_header 2 @ [0, 0]"

definition signed_host :: host where
  "signed_host = host_of_image (elf64_image 2) elf64_hashed [7]"

definition cfg64 :: config where
  "cfg64 = \<lparr> DIGSIG_ELF_SIG_SIZE = 2, DIGSIG_ELF_READ_BLOCK_SIZE = 128,
             DIGSIG_ELF_SIG_SECTION = 0x80736967, DIGSIG_BSIGN_INFOS = 1,
             SECURITY_DIGSIG_DEBUG = False, RESTRICT_USB_DEVICES = False \<rparr>"

definition exe :: struct_file where
  "exe = \<lparr> f_ident = 0, f_dentry = True, d_name = Some ''a.out'', d_inode = 1,
           s_type_name = ''ext3'', bus_name = ''ide'' \<rparr>"

definition ready_state :: dstate where
  "ready_state = init_state\<lparr>g_init := True\<rparr>"

text \<open>A file that is not ELF, and an ELF header whose \<^verbatim>\<open>e_shoff\<close> is zero.\<close>

definition text_host :: host where
  "text_host = host_of_image ([0x23, 0x21, 0x2f, 0x62] @ replicate 66 0x20) [] []"

definition noshoff_host :: host where
  "noshoff_host =
     host_of_image ([0x7f, 0x45, 0x4c, 0x46, 2] @ replicate 53 0 @ [64, 0, 1, 0, 0, 0]) [] []"

subsection \<open>The header reader in the words of the specification\<close>

datatype header_outcome =
  NotRecognizedFormat | Malformed | AllocationFailure | HeaderView "byte list"

text \<open>
  Section 4.1 of the specification: the checks in order (magic, section-table offset,
  entry size for the detected bitness, count times entry size within 64 KiB), on the
  bytes read.
\<close>

definition header_reader_spec :: "bool \<Rightarrow> byte list \<Rightarrow> header_outcome" where
  "header_reader_spec alloc_ok hdr =
     (let bits32 = (field hdr 4 1 = 1);
          magic = take 4 hdr;
          section_table_offset = (if bits32 then field hdr 32 4 else field hdr 40 8);
          entry_size = (if bits32 then field hdr 46 2 else field hdr 58 2);
          section_count = (if bits32 then field hdr 48 2 else field hdr 60 2);
          structure_size = (if bits32 then 40 else 64)
      in if \<not> alloc_ok then AllocationFailure
         else if magic \<noteq> [0x7f, 0x45, 0x4c, 0x46] then NotRecognizedFormat
         else if section_table_offset = 0 then Malformed
         else if entry_size \<noteq> structure_size then Malformed
         else if section_count * entry_size > 65536 then Malformed
         else HeaderView hdr)"

text \<open>
  The same image with a signature section declared one byte longer than the configured
  size, and the debug (permissive) build of the configuration.
\<close>

definition oversize_host :: host where
  "oversize_host = host_of_image (elf64_image 3) elf64_hashed [7]"

definition cfg64_debug :: config where
  "cfg64_debug = cfg64\<lparr>SECURITY_DIGSIG_DEBUG := True\<rparr>"

text \<open>
  The signed image on a host whose read of the first block returns one byte only,
  and on a host whose read of the first block returns no byte.
\<close>

definition short_read_host :: host where
  "short_read_host =
     signed_host\<lparr>kernel_read :=
       (\<lambda>off cnt. if off = 0 \<and> cnt = 128 then (1, 0x7f # replicate 127 0)
                  else read_image (elf64_image 2) off cnt)\<rparr>"

definition zero_read_host :: host where
  "zero_read_host =
     signed_host\<lparr>kernel_read :=
       (\<lambda>off cnt. if off = 0 \<and> cnt = 128 then (0, replicate 128 0)
                  else read_image (elf64_image 2) off cnt)\<rparr>"

text \<open>
  A file of 4 GiB + 2 bytes, every byte \<open>0x41\<close>, whose signature section is declared at
  offset 4 GiB; it is read with the 4-byte blocks of \<open>cfg0\<close>.
\<close>

definition big_host :: host where
  "big_host =
     \<lparr> kmalloc = (\<lambda>_. True), kernel_read = (\<lambda>off cnt. (int cnt, replicate cnt 0x41)),
       i_size_read = 4294967298, digsig_is_revoked_sig = (\<lambda>_. False),
       digsig_sign_verify_init = True,
       digsig_sign_verify_update = (\<lambda>hist b. 0),
       digsig_sign_verify_final = (\<lambda>hist sg. 1) \<rparr>"

text \<open>
  The state in which inode 1 has one writer, and the state in which it is cached and
  mapped for execution through \<open>exe\<close>.
\<close>

definition writer_state :: dstate where
  "writer_state = ready_state\<lparr>i_writecount := (\<lambda>_. 0)(1 := 1)\<rparr>"


subsection \<open>Properties of a trace and of a section table\<close>

text \<open>Every read in the trace that returned a negative value is the last host call of the trace.\<close>

fun no_call_after_failed_read :: "host \<Rightarrow> event list \<Rightarrow> bool" where
  "no_call_after_failed_read h [] = True"
| "no_call_after_failed_read h (KernelRead off cnt # es) =
     (if fst (kernel_read h off cnt) < 0 then es = [] else no_call_after_failed_read h es)"
| "no_call_after_failed_read h (e # es) = no_call_after_failed_read h es"

text \<open>
  Entry \<open>i\<close> is the first entry of the section table whose type is the signature type;
  the size that entry declares; the table has no entry of the signature type.
\<close>

definition signature_section_at :: "config \<Rightarrow> byte list \<Rightarrow> byte list \<Rightarrow> nat \<Rightarrow> bool" where
  "signature_section_at cfg elf_ex elf_shdata i =
     (if field elf_ex EI_CLASS 1 = ELFCLASS32 then
        i < unat (e_shnum32 (as_elf32_hdr elf_ex))
        \<and> sh_type32 (Elf32_Shdr_at elf_shdata i) = DIGSIG_ELF_SIG_SECTION cfg
        \<and> (\<forall>j<i. sh_type32 (Elf32_Shdr_at elf_shdata j) \<noteq> DIGSIG_ELF_SIG_SECTION cfg)
      else
        i < unat (e_shnum64 (as_elf64_hdr elf_ex))
        \<and> sh_type64 (Elf64_Shdr_at elf_shdata i) = DIGSIG_ELF_SIG_SECTION cfg
        \<and> (\<forall>j<i. sh_type64 (Elf64_Shdr_at elf_shdata j) \<noteq> DIGSIG_ELF_SIG_SECTION cfg))"

definition declared_size :: "byte list \<Rightarrow> byte list \<Rightarrow> nat \<Rightarrow> nat" where
  "declared_size elf_ex elf_shdata i =
     (if field elf_ex EI_CLASS 1 = ELFCLASS32 then unat (sh_size32 (Elf32_Shdr_at elf_shdata i))
      else unat (sh_size64 (Elf64_Shdr_at elf_shdata i)))"

definition no_signature_section :: "config \<Rightarrow> byte list \<Rightarrow> byte list \<Rightarrow> bool" where
  "no_signature_section cfg elf_ex elf_shdata =
     (if field elf_ex EI_CLASS 1 = ELFCLASS32 then
        (\<forall>j<unat (e_shnum32 (as_elf32_hdr elf_ex)).
           sh_type32 (Elf32_Shdr_at elf_shdata j) \<noteq> DIGSIG_ELF_SIG_SECTION cfg)
      else
        (\<forall>j<unat (e_shnum64 (as_elf64_hdr elf_ex)).
           sh_type64 (Elf64_Shdr_at elf_shdata j) \<noteq> DIGSIG_ELF_SIG_SECTION cfg))"

subsection \<open>Sequences of guarded operations\<close>

text \<open>
  The hook calls the host makes and the kernel's own updates of \<^verbatim>\<open>i_writecount\<close>, one
  at a time. The module marks no pending writer: a write-open is the call of
  \<^verbatim>\<open>digsig_inode_permission\<close> with \<^verbatim>\<open>MAY_WRITE\<close> (\<open>WritePermission\<close>) and, as a separate
  later event, the kernel's count of the writer (\<open>WriterCounted\<close>); any other operation
  may fall between the two. \<open>WriterGone\<close> is a counted writer closing the file. The
  counter is an \<^verbatim>\<open>atomic_t\<close>, a 32-bit signed integer; the key arrives once (\<open>g_init\<close> is
  set and never cleared).
\<close>

definition atomic_inc :: "int \<Rightarrow> int" where
  "atomic_inc v = (if v = 2147483647 then - 2147483648 else v + 1)"

definition atomic_dec :: "int \<Rightarrow> int" where
  "atomic_dec v = (if v = - 2147483648 then 2147483647 else v - 1)"

datatype guard_op =
    KeyLoaded
  | WritePermission nat
  | WriterCounted nat
  | WriterGone nat
  | ExecMap nat host struct_file "64 word"
  | FileClose struct_file
  | Unlink nat
  | InodeFree nat

fun step :: "config \<Rightarrow> dstate \<Rightarrow> guard_op \<Rightarrow> dstate" where
  "step cfg s KeyLoaded = s\<lparr>g_init := True\<rparr>"
| "step cfg s (WritePermission ino) = snd (digsig_inode_permission s (Some ino) MAY_WRITE)"
| "step cfg s (WriterCounted ino) =
     s\<lparr>i_writecount := (i_writecount s)(ino := atomic_inc (i_writecount s ino))\<rparr>"
| "step cfg s (WriterGone ino) =
     (if i_writecount s ino > 0
      then s\<lparr>i_writecount := (i_writecount s)(ino := atomic_dec (i_writecount s ino))\<rparr>
      else s)"
| "step cfg s (ExecMap fuel h file reqprot) =
     fst (snd (digsig_mmap_file fuel cfg h s (Some file) reqprot))"
| "step cfg s (FileClose file) = digsig_file_free_security s file"
| "step cfg s (Unlink ino) = snd (digsig_inode_unlink s ino)"
| "step cfg s (InodeFree ino) = digsig_inode_free_security s ino"

fun run :: "config \<Rightarrow> dstate \<Rightarrow> guard_op list \<Rightarrow> dstate" where
  "run cfg s [] = s"
| "run cfg s (op # ops) = run cfg (step cfg s op) ops"



subsection \<open>The verification in the words of the specification\<close>




text \<open>The signed image on a host whose revocation list holds its signature.\<close>

definition revoked_signed_host :: host where
  "revoked_signed_host = signed_host\<lparr>digsig_is_revoked_sig := (\<lambda>sg. sg = [9, 7])\<rparr>"


subsection \<open>The invariant of the guard\<close>



section \<open>The initialisation flag\<close>

text \<open>
  C10. While \<open>g_init\<close> is unset (no public key was given to the module), the exec-map
  hook, the write-permission hook and the unlink hook each return 0 at once, whatever
  their arguments: the mapping is allowed, the write is not denied, the state (cache and
  guard fields) is returned as it was and no host call is made.
\<close>

theorem hooks_disabled_until_key_loaded:
  assumes "\<not> g_init s"
  shows "digsig_mmap_file fuel cfg h s file' reqprot = (Some 0, s, [])
         \<and> digsig_inode_permission s inode mask' = (0, s)
         \<and> digsig_inode_unlink s ino = (0, s)"
  using assms
  by (simp add: digsig_mmap_file_def digsig_inode_permission_def digsig_inode_unlink_def)

theorem hooks_disabled_until_key_loaded_witness:
  "\<not> g_init init_state
   \<and> digsig_mmap_file 3 cfg0 host_revoked init_state None VM_EXEC = (Some 0, init_state, [])
   \<and> digsig_inode_permission init_state (Some 1) MAY_WRITE = (0, init_state)
   \<and> digsig_inode_unlink init_state 1 = (0, init_state)"
proof -
  have g: "\<not> g_init init_state"
    by (simp add: init_state_def)
  from hooks_disabled_until_key_loaded [OF g, of 3 cfg0 host_revoked None VM_EXEC "Some 1" MAY_WRITE 1] g
  show ?thesis by simp
qed

section \<open>The header reader\<close>

lemma le_nat_Nil: "le_nat [] = 0"
  by (simp add: le_nat_def)

lemma le_nat_Cons: "le_nat (b # bs) = unat b + 256 * le_nat bs"
  by (simp add: le_nat_def)

lemma le_nat_replicate_zero: "le_nat (replicate n 0) = 0"
  by (induction n) (simp_all add: le_nat_Nil le_nat_Cons)

lemmas le_nat_eval = le_nat_Nil le_nat_Cons le_nat_replicate_zero

lemma le_nat_bound: "le_nat bs < 256 ^ length bs"
proof (induction bs)
  case Nil
  then show ?case by (simp add: le_nat_Nil)
next
  case (Cons b bs)
  have "unat b < 256" using unsigned_less [of b] by simp
  with Cons show ?case by (simp add: le_nat_Cons)
qed

lemma field_bound: "field buf off len < 256 ^ len"
proof -
  have "le_nat (take len (drop off buf)) < 256 ^ length (take len (drop off buf))"
    by (rule le_nat_bound)
  also have "\<dots> \<le> 256 ^ len"
    by (rule power_increasing) simp_all
  finally show ?thesis by (simp add: field_def)
qed

lemma unat_field16: "unat (of_nat (field buf off 2) :: 16 word) = field buf off 2"
  using field_bound [of buf off 2] by (simp add: unat_of_nat)

lemma unat_field32: "unat (of_nat (field buf off 4) :: 32 word) = field buf off 4"
  using field_bound [of buf off 4] by (simp add: unat_of_nat)

lemma unat_field64: "unat (of_nat (field buf off 8) :: 64 word) = field buf off 8"
  using field_bound [of buf off 8] by (simp add: unat_of_nat)

lemma field32_zero:
  "(of_nat (field buf off 4) :: 32 word) = 0 \<longleftrightarrow> field buf off 4 = 0"
  using unat_field32 [of buf off] by (metis unat_eq_0 of_nat_0)

lemma field64_zero:
  "(of_nat (field buf off 8) :: 64 word) = 0 \<longleftrightarrow> field buf off 8 = 0"
  using unat_field64 [of buf off] by (metis unat_eq_0 of_nat_0)

lemma elf_sanity_check32_spec:
  "elf_sanity_check32 (as_elf32_hdr buf) =
     (if take 4 buf \<noteq> ELFMAG then - 2
      else if field buf 32 4 = 0 \<or> field buf 46 2 \<noteq> 40 \<or> 65536 < field buf 48 2 * field buf 46 2
      then - 1 else 0)"
  by (auto simp: elf_sanity_check32_def as_elf32_hdr_def SELFMAG_def sizeof_Elf32_Shdr_def
        unat_field16 field32_zero)

lemma elf_sanity_check64_spec:
  "elf_sanity_check64 (as_elf64_hdr buf) =
     (if take 4 buf \<noteq> ELFMAG then - 2
      else if field buf 40 8 = 0 \<or> field buf 58 2 \<noteq> 64 \<or> 65536 < field buf 60 2 * field buf 58 2
      then - 1 else 0)"
  by (auto simp: elf_sanity_check64_def as_elf64_hdr_def SELFMAG_def sizeof_Elf64_Shdr_def
        unat_field16 field64_zero)

text \<open>
  C5. The header reader against the specification's description: for every host,
  \<^verbatim>\<open>read_elf_header\<close> returns \<^verbatim>\<open>NULL\<close> (the pass-through for a file that is not ELF)
  when the magic bytes differ, \<^verbatim>\<open>ERR_PTR(-EINVAL)\<close> when the section-table offset is
  zero, when the entry size is not the size of the section header structure of the
  detected bitness, or when count times entry size exceeds 65536, and the header
  otherwise (an allocation failure gives \<^verbatim>\<open>ERR_PTR(-ENOMEM)\<close>). At the gate, for a file
  that is not cached, the pass-through makes the hook return 0 (allow) and a malformed
  header makes it return \<^verbatim>\<open>-EINVAL\<close> (deny).
\<close>

theorem header_reader_refines_spec:
  "fst (read_elf_header h) =
     (case header_reader_spec (kmalloc h ElfHeader) (snd (kernel_read h 0 sizeof_elf64_hdr)) of
        NotRecognizedFormat \<Rightarrow> NULL
      | Malformed \<Rightarrow> ERR_PTR (- EINVAL)
      | AllocationFailure \<Rightarrow> ERR_PTR (- ENOMEM)
      | HeaderView v \<Rightarrow> Ptr v)
   \<and> (\<not> is_cached_signature s (d_inode file) \<longrightarrow>
        header_reader_spec (kmalloc h ElfHeader) (snd (kernel_read h 0 sizeof_elf64_hdr))
          = NotRecognizedFormat \<longrightarrow>
        fst (mmap_check fuel cfg h s file die_if_elf allow_write_on_exit) = Some 0)
   \<and> (\<not> is_cached_signature s (d_inode file) \<longrightarrow>
        header_reader_spec (kmalloc h ElfHeader) (snd (kernel_read h 0 sizeof_elf64_hdr))
          = Malformed \<longrightarrow>
        fst (mmap_check fuel cfg h s file die_if_elf allow_write_on_exit) = Some (- EINVAL))"
proof -
  have reader: "fst (read_elf_header h) =
     (case header_reader_spec (kmalloc h ElfHeader) (snd (kernel_read h 0 sizeof_elf64_hdr)) of
        NotRecognizedFormat \<Rightarrow> NULL
      | Malformed \<Rightarrow> ERR_PTR (- EINVAL)
      | AllocationFailure \<Rightarrow> ERR_PTR (- ENOMEM)
      | HeaderView v \<Rightarrow> Ptr v)"
    by (simp add: read_elf_header_def header_reader_spec_def Let_def elf_sanity_check32_spec
          elf_sanity_check64_spec EI_CLASS_def ELFCLASS32_def ELFMAG_def)
  obtain p tr where rd: "read_elf_header h = (p, tr)"
    by (cases "read_elf_header h")
  with reader show ?thesis
    by (auto simp: mmap_check_def)
qed

theorem header_reader_refines_spec_witness:
  "\<not> is_cached_signature ready_state (d_inode exe)
   \<and> header_reader_spec (kmalloc text_host ElfHeader)
        (snd (kernel_read text_host 0 sizeof_elf64_hdr)) = NotRecognizedFormat
   \<and> fst (mmap_check 3 cfg64 text_host ready_state exe 0 True) = Some 0
   \<and> header_reader_spec (kmalloc noshoff_host ElfHeader)
        (snd (kernel_read noshoff_host 0 sizeof_elf64_hdr)) = Malformed
   \<and> fst (mmap_check 3 cfg64 noshoff_host ready_state exe 0 True) = Some (- EINVAL)"
proof -
  have c: "\<not> is_cached_signature ready_state (d_inode exe)"
    by (simp add: is_cached_signature_def ready_state_def init_state_def)
  have t: "header_reader_spec (kmalloc text_host ElfHeader)
        (snd (kernel_read text_host 0 sizeof_elf64_hdr)) = NotRecognizedFormat"
    by (simp add: header_reader_spec_def text_host_def host_of_image_def read_image_def
          sizeof_elf64_hdr_def field_def le_nat_eval)
  have m: "header_reader_spec (kmalloc noshoff_host ElfHeader)
        (snd (kernel_read noshoff_host 0 sizeof_elf64_hdr)) = Malformed"
    by (simp add: header_reader_spec_def noshoff_host_def host_of_image_def read_image_def
          sizeof_elf64_hdr_def field_def le_nat_eval)
  from header_reader_refines_spec [of text_host ready_state exe 3 cfg64 0 True]
    header_reader_refines_spec [of noshoff_host ready_state exe 3 cfg64 0 True] c t m
  show ?thesis by simp
qed


section \<open>Evaluating the model on the concrete images\<close>

lemma replicate_4: "replicate 4 x = [x, x, x, x]"
  by (simp add: numeral_eq_Suc)

lemmas elf_eval = field_def le_nat_eval sizeof_elf64_hdr_def sizeof_Elf64_Shdr_def
  sizeof_Elf32_Shdr_def EI_CLASS_def ELFCLASS32_def ELFMAG_def SELFMAG_def
  as_elf64_hdr_def as_elf32_hdr_def Elf64_Shdr_at_def Elf32_Shdr_at_def
  elf_sanity_check64_def elf_sanity_check32_def

lemma replicate_2: "replicate 2 x = [x, x]"
  by (simp add: numeral_2_eq_2)

lemma length_elf64_header: "length elf64_header = 64"
  by (simp add: elf64_header_def)

lemma length_sig_section_header: "length (sig_section_header sz) = 64"
  by (simp add: sig_section_header_def)

lemma read_header: "read_image (elf64_image sz) 0 64 = (64, elf64_header)"
  by (simp add: read_image_def elf64_image_def length_elf64_header)

lemma read_table: "read_image (elf64_image sz) 64 64 = (64, sig_section_header sz)"
  by (simp add: read_image_def elf64_image_def length_elf64_header length_sig_section_header)

lemma read_sig: "read_image (elf64_image sz) 128 2 = (2, [9, 7])"
  by (simp add: read_image_def elf64_image_def length_elf64_header length_sig_section_header)

lemma read_block0:
  "read_image (elf64_image sz) 0 128 = (128, elf64_header @ sig_section_header sz)"
  by (simp add: read_image_def elf64_image_def length_elf64_header length_sig_section_header)

lemma read_block1:
  "read_image (elf64_image sz) 128 128 = (2, 9 # 7 # replicate 126 0)"
  by (simp add: read_image_def elf64_image_def length_elf64_header length_sig_section_header)

lemma header_ok:
  "field elf64_header EI_CLASS (Suc 0) \<noteq> ELFCLASS32"
  "elf_sanity_check64 (as_elf64_hdr elf64_header) = 0"
  "e_shnum64 (as_elf64_hdr elf64_header) = 1"
  "e_shoff64 (as_elf64_hdr elf64_header) = 64"
  by (simp_all add: elf64_header_def elf_eval)

lemma section_fields:
  "sh_type64 (Elf64_Shdr_at (sig_section_header sz) 0) = 0x80736967"
  "sh_offset64 (Elf64_Shdr_at (sig_section_header sz) 0) = 128"
  "sh_size64 (Elf64_Shdr_at (sig_section_header sz) 0) = ucast sz"
  by (simp_all add: sig_section_header_def elf_eval)

lemma patch0: "zero_patch cfg64 128 0 buf = buf"
  by (simp add: zero_patch_def cfg64_def)

lemma patch1: "zero_patch cfg64 128 128 (9 # 7 # replicate 126 0) = replicate 128 0"
  by (simp add: zero_patch_def cfg64_def memset_def replicate_add [symmetric] del: replicate_add)


lemma cfg64_fields:
  "DIGSIG_ELF_SIG_SIZE cfg64 = 2" "DIGSIG_ELF_READ_BLOCK_SIZE cfg64 = 128"
  "DIGSIG_ELF_SIG_SECTION cfg64 = 0x80736967" "DIGSIG_BSIGN_INFOS cfg64 = 1"
  "SECURITY_DIGSIG_DEBUG cfg64 = False" "RESTRICT_USB_DEVICES cfg64 = False"
  by (simp_all add: cfg64_def)

lemma length_elf64_image: "length (elf64_image sz) = 130"
  by (simp add: elf64_image_def length_elf64_header length_sig_section_header)

lemma hashed_neq: "[0x7f, 0, 0] \<noteq> elf64_hashed"
  by (simp add: elf64_hashed_def elf64_header_def)


section \<open>The streaming verify loop\<close>

lemma memset_nth:
  "i < length buf \<Longrightarrow>
   memset buf start c n ! i = (if start \<le> i \<and> i < start + n then c else buf ! i)"
  by (auto simp: memset_def nth_append min_def)

lemma memset_length: "length (memset buf start c n) = length buf"
  by (auto simp: memset_def min_def)

lemma zero_patch_length: "length (zero_patch cfg sh_offset offset buf) = length buf"
  by (simp add: zero_patch_def Let_def memset_length)

lemma no_call_append_ok:
  "no_call_after_failed_read h tr \<Longrightarrow>
   (\<forall>off cnt. last tr = KernelRead off cnt \<longrightarrow> \<not> fst (kernel_read h off cnt) < 0) \<Longrightarrow>
   no_call_after_failed_read h es \<Longrightarrow> no_call_after_failed_read h (tr @ es)"
proof (induction tr)
  case Nil
  then show ?case by simp
next
  case (Cons e tr)
  show ?case
  proof (cases "tr = []")
    case True
    with Cons.prems show ?thesis by (cases e) (auto split: if_splits)
  next
    case False
    with Cons show ?thesis by (cases e) (auto split: if_splits)
  qed
qed

lemma verify_loop_reads:
  assumes "verify_loop fuel cfg h sh_offset offset tr = (ex, tr')"
    and "no_call_after_failed_read h tr"
    and "tr \<noteq> []"
    and "\<forall>off cnt. last tr = KernelRead off cnt \<longrightarrow> \<not> fst (kernel_read h off cnt) < 0"
  shows "no_call_after_failed_read h tr' \<and> tr' \<noteq> []
     \<and> (\<forall>off cnt. last tr' = KernelRead off cnt \<longrightarrow> fst (kernel_read h off cnt) < 0
           \<longrightarrow> ex = GotoOut (fst (kernel_read h off cnt)))"
  using assms
proof (induction fuel arbitrary: offset tr)
  case 0
  then show ?case by (auto split: if_splits)
next
  case (Suc n)
  let ?B = "DIGSIG_ELF_READ_BLOCK_SIZE cfg"
  let ?ev = "KernelRead (unat offset) ?B"
  show ?case
  proof (cases "uint offset < i_size_read h")
    case False
    with Suc.prems show ?thesis by auto
  next
    case True
    obtain retval read_blocks where rd: "kernel_read h (unat offset) ?B = (retval, read_blocks)"
      by (cases "kernel_read h (unat offset) ?B")
    have tr1: "no_call_after_failed_read h (tr @ [?ev])"
      using Suc.prems by (intro no_call_append_ok) auto
    show ?thesis
    proof (cases "retval \<le> 0")
      case le: True
      with True rd Suc.prems(1) have "ex = GotoOut retval" "tr' = tr @ [?ev]"
        by auto
      with tr1 rd show ?thesis by auto
    next
      case pos: False
      let ?block = "take (nat retval) (zero_patch cfg sh_offset offset read_blocks)"
      let ?tr2 = "tr @ [?ev, VerifyUpdate ?block]"
      have tr2: "no_call_after_failed_read h ?tr2"
        using Suc.prems rd pos by (intro no_call_append_ok) auto
      show ?thesis
      proof (cases "digsig_sign_verify_update h (fed (tr @ [?ev])) ?block < 0")
        case True
        with \<open>uint offset < i_size_read h\<close> rd pos Suc.prems(1)
        have "tr' = ?tr2" by (auto simp: Let_def)
        with tr2 show ?thesis by auto
      next
        case False
        with \<open>uint offset < i_size_read h\<close> rd pos Suc.prems(1)
        have "verify_loop n cfg h sh_offset (offset + word_of_int (int ?B)) ?tr2 = (ex, tr')"
          by (auto simp: Let_def)
        from Suc.IH [OF this tr2] show ?thesis by auto
      qed
    qed
  qed
qed


text \<open>
  What the loop body does to a block when none of its 32-bit quantities wraps: the
  signature section ends below 4 GiB and so does the block. Byte \<open>i\<close> of the buffer is
  zero when its file offset lies in the section, and as read otherwise.
\<close>

lemma zero_patch_no_wrap:
  assumes len: "i < length buf"
    and sig: "unat sh_offset + DIGSIG_ELF_SIG_SIZE cfg < 2 ^ 32"
    and blk: "unat offset + DIGSIG_ELF_READ_BLOCK_SIZE cfg < 2 ^ 32"
    and inb: "i < DIGSIG_ELF_READ_BLOCK_SIZE cfg"
  shows "zero_patch cfg sh_offset offset buf ! i =
           (if unat sh_offset \<le> unat offset + i
               \<and> unat offset + i < unat sh_offset + DIGSIG_ELF_SIG_SIZE cfg
            then 0 else buf ! i)"
proof -
  define S where "S = DIGSIG_ELF_SIG_SIZE cfg"
  define B where "B = DIGSIG_ELF_READ_BLOCK_SIZE cfg"
  define lower where "lower = (ucast sh_offset :: 32 word)"
  define upper where "upper = (ucast (sh_offset + word_of_int (int S)) :: 32 word)"
  define block_end where "block_end = offset + (word_of_int (int B) :: 32 word)"
  have lo: "unat lower = unat sh_offset"
    using sig by (simp add: lower_def unsigned_ucast_eq take_bit_nat_eq_self)
  have "unat (sh_offset + word_of_int (int S)) = unat sh_offset + S"
    using sig by (simp add: unat_word_ariths unat_of_nat S_def)
  then have up: "unat upper = unat sh_offset + S"
    using sig by (simp add: upper_def unsigned_ucast_eq take_bit_nat_eq_self S_def)
  have be: "unat block_end = unat offset + B"
    using blk by (simp add: block_end_def unat_word_ariths unat_of_nat B_def)
  have zp: "zero_patch cfg sh_offset offset buf =
     (if lower < block_end \<and> offset < upper then
        memset buf (unat ((if offset > lower then offset else lower) - offset)) 0
          (unat ((if block_end < upper then block_end else upper)
                 - (if offset > lower then offset else lower)))
      else buf)"
    by (simp add: zero_patch_def Let_def lower_def upper_def block_end_def S_def B_def)
  show ?thesis
  proof (cases "lower < block_end \<and> offset < upper")
    case False
    then show ?thesis
      using inb by (auto simp: zp word_less_nat_alt lo up be S_def B_def)
  next
    case True
    then have a: "unat sh_offset < unat offset + B" and b: "unat offset < unat sh_offset + S"
      by (simp_all add: word_less_nat_alt lo up be)
    define lower' where "lower' = (if offset > lower then offset else lower)"
    define upper' where "upper' = (if block_end < upper then block_end else upper)"
    have l': "unat lower' = max (unat offset) (unat sh_offset)"
      by (auto simp: lower'_def word_less_nat_alt lo)
    have u': "unat upper' = min (unat offset + B) (unat sh_offset + S)"
      by (auto simp: upper'_def word_less_nat_alt up be)
    have le1: "offset \<le> lower'"
      by (simp add: word_le_nat_alt l')
    have le2: "lower' \<le> upper'"
      using a b by (simp add: word_le_nat_alt l' u')
    have d1: "unat (lower' - offset) = max (unat offset) (unat sh_offset) - unat offset"
      using le1 by (simp add: unat_sub l')
    have d2: "unat (upper' - lower') =
        min (unat offset + B) (unat sh_offset + S) - max (unat offset) (unat sh_offset)"
      using le2 by (simp add: unat_sub l' u')
    have "zero_patch cfg sh_offset offset buf =
        memset buf (unat (lower' - offset)) 0 (unat (upper' - lower'))"
      using True by (simp add: zp lower'_def upper'_def)
    then show ?thesis
      using len inb a b by (auto simp: memset_nth d1 d2 S_def B_def)
  qed
qed

text \<open>
  C1. The zero-patching of the loop is done in \<^verbatim>\<open>unsigned int\<close> while the section
  offset is an \<^verbatim>\<open>unsigned long\<close>. For the file of 4 GiB + 2 bytes whose signature section
  is declared at offset 4 GiB (bytes 4294967296 and 4294967297), the first block, bytes
  0 to 3 of the file, does not meet the section, yet its first two bytes are zeroed
  before the block is fed to the verify context: the block read is
  \<open>[0x41, 0x41, 0x41, 0x41]\<close> and the block hashed is \<open>[0, 0, 0x41, 0x41]\<close>. (The run is
  bounded to one iteration of the loop.)
\<close>

theorem zero_patch_truncates_section_offset:
  "digsig_verify_signature (Suc 0) cfg0 big_host [9, 7] 0x100000000
     = (None, [VerifyInit, Kmalloc ReadBlocks, KernelRead 0 4, VerifyUpdate [0, 0, 0x41, 0x41]])
   \<and> kernel_read big_host 0 4 = (4, [0x41, 0x41, 0x41, 0x41])"
  by (simp add: digsig_verify_signature_def zero_patch_def memset_def cfg0_def big_host_def
        replicate_4 replicate_2)

text \<open>
  C4, as the claim states it, fails: on the signed 130-byte image read in blocks of 128
  bytes, the read of the first block returns 1 byte, with 129 bytes of the file still
  to come. Verification does not abort: the one byte is hashed, the loop goes on at
  offset 128 (bytes 1 to 127 are never hashed), hashes the last block and calls the
  final comparison.
\<close>

theorem short_read_counterexample:
  "digsig_verify_signature (Suc (Suc (Suc 0))) cfg64 short_read_host [9, 7] 128
     = (Some (- EPERM),
        [VerifyInit, Kmalloc ReadBlocks, KernelRead 0 128, VerifyUpdate [0x7f],
         KernelRead 128 128, VerifyUpdate [0, 0], VerifyFinal [7]])
   \<and> kernel_read short_read_host 0 128 = (1, 0x7f # replicate 127 0)
   \<and> i_size_read short_read_host = 130"
  using hashed_neq
  by (simp add: digsig_verify_signature_def short_read_host_def signed_host_def host_of_image_def
      read_block1 patch0 patch1 replicate_2 cfg64_fields length_elf64_image Let_def)

text \<open>
  C4, amended. In every run of \<^verbatim>\<open>digsig_verify_signature\<close>, a read that returns a
  negative value is the last host call of the run, and the function returns that value,
  an error verdict. A read that returns a positive count, a full block or
  less, is not an error: the bytes read, zero-patched, are fed to the context and, when
  the update succeeds, the loop goes on at the next block offset.
\<close>

theorem failed_read_aborts_verification:
  "(digsig_verify_signature fuel cfg h sig_orig sh_offset = (r, tr) \<longrightarrow>
      no_call_after_failed_read h tr
      \<and> (\<forall>off cnt. tr \<noteq> [] \<and> last tr = KernelRead off cnt \<and> fst (kernel_read h off cnt) < 0
            \<longrightarrow> r = Some (fst (kernel_read h off cnt))))
   \<and> (uint offset < i_size_read h
       \<and> kernel_read h (unat offset) (DIGSIG_ELF_READ_BLOCK_SIZE cfg) = (retval, read_blocks)
       \<and> 0 < retval
       \<and> 0 \<le> digsig_sign_verify_update h
               (fed (tr0 @ [KernelRead (unat offset) (DIGSIG_ELF_READ_BLOCK_SIZE cfg)]))
               (take (nat retval) (zero_patch cfg sh_offset offset read_blocks))
       \<longrightarrow>
       verify_loop (Suc n) cfg h sh_offset offset tr0 =
         verify_loop n cfg h sh_offset
           (offset + word_of_int (int (DIGSIG_ELF_READ_BLOCK_SIZE cfg)))
           (tr0 @ [KernelRead (unat offset) (DIGSIG_ELF_READ_BLOCK_SIZE cfg),
                   VerifyUpdate (take (nat retval)
                                   (zero_patch cfg sh_offset offset read_blocks))]))"
proof -
  let ?tr0 = "[VerifyInit, Kmalloc ReadBlocks]"
  let ?concl = "no_call_after_failed_read h tr
      \<and> (\<forall>off cnt. tr \<noteq> [] \<and> last tr = KernelRead off cnt \<and> fst (kernel_read h off cnt) < 0
            \<longrightarrow> r = Some (fst (kernel_read h off cnt)))"
  have part1: "digsig_verify_signature fuel cfg h sig_orig sh_offset = (r, tr) \<longrightarrow> ?concl"
  proof (rule impI)
    assume run: "digsig_verify_signature fuel cfg h sig_orig sh_offset = (r, tr)"
    show ?concl
    proof (cases "digsig_is_revoked_sig h sig_orig \<or> \<not> digsig_sign_verify_init h
                  \<or> \<not> kmalloc h ReadBlocks")
      case True
      with run show ?thesis
        by (auto simp: digsig_verify_signature_def split: if_splits)
    next
      case False
      obtain ex tr' where lp: "verify_loop fuel cfg h sh_offset 0 ?tr0 = (ex, tr')"
        by (cases "verify_loop fuel cfg h sh_offset 0 ?tr0")
      have props: "no_call_after_failed_read h tr' \<and> tr' \<noteq> []
         \<and> (\<forall>off cnt. last tr' = KernelRead off cnt \<longrightarrow> fst (kernel_read h off cnt) < 0
               \<longrightarrow> ex = GotoOut (fst (kernel_read h off cnt)))"
        by (rule verify_loop_reads [OF lp]) simp_all
      show ?thesis
      proof (cases ex)
        case (GotoOut v)
        with run False lp have "r = Some v" "tr = tr'"
          by (auto simp: digsig_verify_signature_def)
        with props GotoOut show ?thesis by auto
      next
        case OutOfFuel
        with run False lp have "tr = tr'"
          by (auto simp: digsig_verify_signature_def)
        with props OutOfFuel show ?thesis by auto
      next
        case LoopEnd
        let ?sig = "drop (DIGSIG_BSIGN_INFOS cfg) sig_orig"
        from run False lp LoopEnd have tr: "tr = tr' @ [VerifyFinal ?sig]"
          by (auto simp: digsig_verify_signature_def Let_def)
        have "no_call_after_failed_read h (tr' @ [VerifyFinal ?sig])"
          using props LoopEnd by (intro no_call_append_ok) auto
        with tr show ?thesis by simp
      qed
    qed
  qed
  have part2: "uint offset < i_size_read h
       \<and> kernel_read h (unat offset) (DIGSIG_ELF_READ_BLOCK_SIZE cfg) = (retval, read_blocks)
       \<and> 0 < retval
       \<and> 0 \<le> digsig_sign_verify_update h
               (fed (tr0 @ [KernelRead (unat offset) (DIGSIG_ELF_READ_BLOCK_SIZE cfg)]))
               (take (nat retval) (zero_patch cfg sh_offset offset read_blocks))
       \<longrightarrow>
       verify_loop (Suc n) cfg h sh_offset offset tr0 =
         verify_loop n cfg h sh_offset
           (offset + word_of_int (int (DIGSIG_ELF_READ_BLOCK_SIZE cfg)))
           (tr0 @ [KernelRead (unat offset) (DIGSIG_ELF_READ_BLOCK_SIZE cfg),
                   VerifyUpdate (take (nat retval)
                                   (zero_patch cfg sh_offset offset read_blocks))])"
    by (simp add: Let_def)
  from conjI [OF part1 part2] show ?thesis .
qed


theorem failed_read_aborts_verification_witness:
  "digsig_verify_signature (Suc 0) cfg0 host_revoked [1, 1] 5
     = (Some (- 5), [VerifyInit, Kmalloc ReadBlocks, KernelRead 0 4])
   \<and> fst (kernel_read host_revoked 0 4) < 0
   \<and> no_call_after_failed_read host_revoked [VerifyInit, Kmalloc ReadBlocks, KernelRead 0 4]
   \<and> uint (0 :: 32 word) < i_size_read short_read_host
   \<and> kernel_read short_read_host (unat (0 :: 32 word)) (DIGSIG_ELF_READ_BLOCK_SIZE cfg64)
       = (1, 0x7f # replicate 127 0)
   \<and> verify_loop (Suc (Suc (Suc 0))) cfg64 short_read_host 128 0 [] =
       verify_loop (Suc (Suc 0)) cfg64 short_read_host 128 128
         [KernelRead 0 128, VerifyUpdate [0x7f]]"
proof -
  have run: "digsig_verify_signature (Suc 0) cfg0 host_revoked [1, 1] 5
     = (Some (- 5), [VerifyInit, Kmalloc ReadBlocks, KernelRead 0 4])"
    by (simp add: digsig_verify_signature_def host_revoked_def cfg0_def)
  have neg: "fst (kernel_read host_revoked 0 4) < 0"
    by (simp add: host_revoked_def)
  have sz: "uint (0 :: 32 word) < i_size_read short_read_host"
    by (simp add: short_read_host_def signed_host_def host_of_image_def length_elf64_image)
  have rd: "kernel_read short_read_host (unat (0 :: 32 word)) (DIGSIG_ELF_READ_BLOCK_SIZE cfg64)
       = (1, 0x7f # replicate 127 0)"
    by (simp add: short_read_host_def cfg64_fields)
  have upd: "0 \<le> digsig_sign_verify_update short_read_host
               (fed ([] @ [KernelRead (unat (0 :: 32 word)) (DIGSIG_ELF_READ_BLOCK_SIZE cfg64)]))
               (take (nat 1) (zero_patch cfg64 128 0 (0x7f # replicate 127 0)))"
    by (simp add: short_read_host_def signed_host_def host_of_image_def)
  note thm1 = failed_read_aborts_verification
     [where fuel = "Suc 0" and cfg = cfg0 and h = host_revoked and sig_orig = "[1, 1]"
        and sh_offset = 5 and r = "Some (- 5)"
        and tr = "[VerifyInit, Kmalloc ReadBlocks, KernelRead 0 4]", THEN conjunct1]
  note thm2 = failed_read_aborts_verification
     [where cfg = cfg64 and h = short_read_host and offset = 0 and retval = 1
        and read_blocks = "0x7f # replicate 127 0" and sh_offset = 128 and tr0 = "[]"
        and n = "Suc (Suc 0)", THEN conjunct2]
  from thm1 run have "no_call_after_failed_read host_revoked
      [VerifyInit, Kmalloc ReadBlocks, KernelRead 0 4]"
    by simp
  moreover from thm2 sz rd upd
  have "verify_loop (Suc (Suc (Suc 0))) cfg64 short_read_host 128 0 [] =
       verify_loop (Suc (Suc 0)) cfg64 short_read_host 128 128
         [KernelRead 0 128, VerifyUpdate [0x7f]]"
    by (simp add: cfg64_fields patch0)
  ultimately show ?thesis using run neg sz rd by simp
qed


section \<open>Locating the signature section\<close>

lemma scan64_first:
  "i < shnum \<Longrightarrow> sh_type64 (Elf64_Shdr_at shdata i) = DIGSIG_ELF_SIG_SECTION cfg \<Longrightarrow>
   \<forall>j<i. sh_type64 (Elf64_Shdr_at shdata j) \<noteq> DIGSIG_ELF_SIG_SECTION cfg \<Longrightarrow>
   k \<le> i \<Longrightarrow> scan64 cfg shnum shdata k = i"
proof (induction "i - k" arbitrary: k)
  case 0
  then show ?case by (simp add: scan64.simps [of _ _ _ k])
next
  case (Suc d)
  then have "k < i" by simp
  with Suc.prems have "scan64 cfg shnum shdata k = scan64 cfg shnum shdata (k + 1)"
    by (simp add: scan64.simps [of _ _ _ k])
  also have "\<dots> = i"
    using Suc.hyps Suc.prems \<open>k < i\<close> by (intro Suc.hyps(1)) auto
  finally show ?case .
qed

lemma scan64_none:
  "\<forall>j < shnum. sh_type64 (Elf64_Shdr_at shdata j) \<noteq> DIGSIG_ELF_SIG_SECTION cfg \<Longrightarrow>
   k \<le> shnum \<Longrightarrow> scan64 cfg shnum shdata k = shnum"
proof (induction "shnum - k" arbitrary: k)
  case 0
  then show ?case by (simp add: scan64.simps [of _ _ _ k])
next
  case (Suc d)
  then have "k < shnum" by simp
  with Suc.prems have "scan64 cfg shnum shdata k = scan64 cfg shnum shdata (k + 1)"
    by (simp add: scan64.simps [of _ _ _ k])
  also have "\<dots> = shnum"
    using Suc.hyps Suc.prems \<open>k < shnum\<close> by (intro Suc.hyps(1)) auto
  finally show ?case .
qed

lemma scan32_first:
  "i < shnum \<Longrightarrow> sh_type32 (Elf32_Shdr_at shdata i) = DIGSIG_ELF_SIG_SECTION cfg \<Longrightarrow>
   \<forall>j<i. sh_type32 (Elf32_Shdr_at shdata j) \<noteq> DIGSIG_ELF_SIG_SECTION cfg \<Longrightarrow>
   k \<le> i \<Longrightarrow> scan32 cfg shnum shdata k = i"
proof (induction "i - k" arbitrary: k)
  case 0
  then show ?case by (simp add: scan32.simps [of _ _ _ k])
next
  case (Suc d)
  then have "k < i" by simp
  with Suc.prems have "scan32 cfg shnum shdata k = scan32 cfg shnum shdata (k + 1)"
    by (simp add: scan32.simps [of _ _ _ k])
  also have "\<dots> = i"
    using Suc.hyps Suc.prems \<open>k < i\<close> by (intro Suc.hyps(1)) auto
  finally show ?case .
qed

lemma scan32_none:
  "\<forall>j < shnum. sh_type32 (Elf32_Shdr_at shdata j) \<noteq> DIGSIG_ELF_SIG_SECTION cfg \<Longrightarrow>
   k \<le> shnum \<Longrightarrow> scan32 cfg shnum shdata k = shnum"
proof (induction "shnum - k" arbitrary: k)
  case 0
  then show ?case by (simp add: scan32.simps [of _ _ _ k])
next
  case (Suc d)
  then have "k < shnum" by simp
  with Suc.prems have "scan32 cfg shnum shdata k = scan32 cfg shnum shdata (k + 1)"
    by (simp add: scan32.simps [of _ _ _ k])
  also have "\<dots> = shnum"
    using Suc.hyps Suc.prems \<open>k < shnum\<close> by (intro Suc.hyps(1)) auto
  finally show ?case .
qed

lemma size_differs64:
  "n < 2 ^ 31 \<Longrightarrow> unat (w :: 64 word) \<noteq> n \<Longrightarrow> w \<noteq> word_of_int (int n)"
  by (auto simp: unat_of_nat)

lemma size_differs32:
  "n < 2 ^ 31 \<Longrightarrow> unat (w :: 32 word) \<noteq> n \<Longrightarrow> w \<noteq> word_of_int (int n)"
  by (auto simp: unat_of_nat)

lemma find_wrong_size:
  assumes "DIGSIG_ELF_SIG_SIZE cfg < 2 ^ 31"
    and "signature_section_at cfg elf_ex elf_shdata i"
    and "declared_size elf_ex elf_shdata i \<noteq> DIGSIG_ELF_SIG_SIZE cfg"
  shows "find_signature cfg h elf_ex elf_shdata = (None, [])"
proof (cases "field elf_ex EI_CLASS 1 = ELFCLASS32")
  case True
  with assms(2) have "scan32 cfg (unat (e_shnum32 (as_elf32_hdr elf_ex))) elf_shdata 0 = i"
    by (intro scan32_first) (auto simp: signature_section_at_def)
  moreover from True assms have
    "sh_size32 (Elf32_Shdr_at elf_shdata i) \<noteq> word_of_int (int (DIGSIG_ELF_SIG_SIZE cfg))"
    by (intro size_differs32) (auto simp: declared_size_def)
  ultimately show ?thesis
    using True assms(2)
    by (simp add: find_signature_def digsig_find_signature32_def signature_section_at_def)
next
  case False
  with assms(2) have "scan64 cfg (unat (e_shnum64 (as_elf64_hdr elf_ex))) elf_shdata 0 = i"
    by (intro scan64_first) (auto simp: signature_section_at_def)
  moreover from False assms have
    "sh_size64 (Elf64_Shdr_at elf_shdata i) \<noteq> word_of_int (int (DIGSIG_ELF_SIG_SIZE cfg))"
    by (intro size_differs64) (auto simp: declared_size_def)
  ultimately show ?thesis
    using False assms(2)
    by (simp add: find_signature_def digsig_find_signature64_def signature_section_at_def)
qed

lemma find_no_section:
  assumes "no_signature_section cfg elf_ex elf_shdata"
  shows "find_signature cfg h elf_ex elf_shdata = (None, [])"
proof (cases "field elf_ex EI_CLASS 1 = ELFCLASS32")
  case True
  with assms have "scan32 cfg (unat (e_shnum32 (as_elf32_hdr elf_ex))) elf_shdata 0
      = unat (e_shnum32 (as_elf32_hdr elf_ex))"
    by (intro scan32_none) (auto simp: no_signature_section_def)
  then show ?thesis
    using True by (simp add: find_signature_def digsig_find_signature32_def)
next
  case False
  with assms have "scan64 cfg (unat (e_shnum64 (as_elf64_hdr elf_ex))) elf_shdata 0
      = unat (e_shnum64 (as_elf64_hdr elf_ex))"
    by (intro scan64_none) (auto simp: no_signature_section_def)
  then show ?thesis
    using False by (simp add: find_signature_def digsig_find_signature64_def)
qed


lemma stage_header:
  "kmalloc h ElfHeader \<Longrightarrow> snd (kernel_read h 0 64) = elf64_header \<Longrightarrow>
   read_elf_header h = (Ptr elf64_header, [Kmalloc ElfHeader, KernelRead 0 64])"
  by (simp add: read_elf_header_def sizeof_elf64_hdr_def header_ok)

lemma stage_table:
  "kmalloc h SectionTable \<Longrightarrow> kernel_read h 64 64 = (64, tbl) \<Longrightarrow>
   read_section_table h elf64_header = (Inr tbl, [Kmalloc SectionTable, KernelRead 64 64])"
  by (simp add: read_section_table_def read_section_header_def header_ok sizeof_Elf64_Shdr_def)

lemma stage_find:
  "DIGSIG_ELF_SIG_SIZE cfg = 2 \<Longrightarrow> DIGSIG_ELF_SIG_SECTION cfg = 0x80736967 \<Longrightarrow>
   kmalloc h SignatureBuffer \<Longrightarrow> kernel_read h 128 2 = (2, sg) \<Longrightarrow>
   find_signature cfg h elf64_header (sig_section_header 2)
     = (Some (sg, 128), [Kmalloc SignatureBuffer, KernelRead 128 2])"
  by (simp add: find_signature_def digsig_find_signature64_def digsig_read_signature_def
        scan64.simps [of _ _ _ 0] header_ok section_fields)

lemma cfg64_debug_fields:
  "DIGSIG_ELF_SIG_SIZE cfg64_debug = 2" "DIGSIG_ELF_READ_BLOCK_SIZE cfg64_debug = 128"
  "DIGSIG_ELF_SIG_SECTION cfg64_debug = 0x80736967" "DIGSIG_BSIGN_INFOS cfg64_debug = 1"
  "SECURITY_DIGSIG_DEBUG cfg64_debug = True" "RESTRICT_USB_DEVICES cfg64_debug = False"
  by (simp_all add: cfg64_debug_def cfg64_def)

lemma oversize_section:
  "signature_section_at cfg64_debug elf64_header (sig_section_header 3) 0"
  "declared_size elf64_header (sig_section_header 3) 0 = 3"
  by (simp_all add: signature_section_at_def declared_size_def header_ok section_fields
        cfg64_debug_fields)

lemma oversize_host_reads:
  "kmalloc oversize_host a"
  "kernel_read oversize_host 0 64 = (64, elf64_header)"
  "kernel_read oversize_host 64 64 = (64, sig_section_header 3)"
  by (simp_all add: oversize_host_def host_of_image_def read_header read_table)

lemma exe_fields:
  "f_dentry exe" "d_name exe = Some ''a.out''" "d_inode exe = 1"
  "\<not> is_unprotected_file cfg exe"
  by (simp_all add: exe_def is_unprotected_file_def digsig_fs_blacklist_def)

lemma ready_state_fields:
  "g_init ready_state" "i_security ready_state = (\<lambda>_. 0)" "i_writecount ready_state = (\<lambda>_. 0)"
  "f_security ready_state = (\<lambda>_. 0)" "sig_cache ready_state = {}"
  by (simp_all add: ready_state_def init_state_def)

text \<open>
  C2, as the claim states it, fails: in the debug (permissive) build, the 64-bit image
  whose signature section declares 3 bytes where 2 are mandated is mapped for execution:
  the hook returns 0 after reading the header and the section table only, as it does
  for an image without a signature section.
\<close>

theorem oversize_signature_counterexample:
  "fst (digsig_mmap_file (Suc 0) cfg64_debug oversize_host ready_state (Some exe) VM_EXEC)
     = Some 0
   \<and> snd (snd (digsig_mmap_file (Suc 0) cfg64_debug oversize_host ready_state (Some exe) VM_EXEC))
     = [Kmalloc ElfHeader, KernelRead 0 64, Kmalloc SectionTable, KernelRead 64 64]
   \<and> signature_section_at cfg64_debug elf64_header (sig_section_header 3) 0
   \<and> declared_size elf64_header (sig_section_header 3) 0 = 3
   \<and> DIGSIG_ELF_SIG_SIZE cfg64_debug = 2"
proof -
  have fs: "find_signature cfg64_debug oversize_host elf64_header (sig_section_header 3)
      = (None, [])"
    by (rule find_wrong_size [OF _ oversize_section(1)])
       (simp_all add: oversize_section cfg64_debug_fields)
  have chk: "mmap_check (Suc 0) cfg64_debug oversize_host s exe 0 True
      = (Some 0, True, s, [Kmalloc ElfHeader, KernelRead 0 64, Kmalloc SectionTable,
          KernelRead 64 64])"
    if "sig_cache s = {}" for s
    using that
    by (simp add: mmap_check_def is_cached_signature_def stage_header stage_table
          oversize_host_reads fs DIGSIG_MODE_def cfg64_debug_fields)
  show ?thesis
    by (simp add: digsig_mmap_file_def digsig_deny_write_access_def
          digsig_allow_write_access_def Let_def exe_fields ready_state_fields chk VM_EXEC_def
          oversize_section cfg64_debug_fields)
qed

text \<open>
  C2, amended. When the scan finds a section of the signature type whose declared size
  is not the mandated size, \<^verbatim>\<open>digsig_find_signature32/64\<close> return \<^verbatim>\<open>NULL\<close> without reading
  anything, exactly as when the table has no section of the signature type; the
  exec-map request then ends with \<^verbatim>\<open>DIGSIG_MODE\<close>, the value of the signature-missing
  case: \<^verbatim>\<open>-EPERM\<close> (deny) in the restrictive build and 0 (allow) in the debug build.
\<close>

theorem wrong_size_signature_gets_default_mode:
  assumes "DIGSIG_ELF_SIG_SIZE cfg < 2 ^ 31"
    and "signature_section_at cfg elf_ex elf_shdata i"
    and "declared_size elf_ex elf_shdata i \<noteq> DIGSIG_ELF_SIG_SIZE cfg"
  shows "find_signature cfg h elf_ex elf_shdata = (None, [])
     \<and> (no_signature_section cfg elf_ex' elf_shdata' \<longrightarrow>
          find_signature cfg h elf_ex' elf_shdata' = (None, []))
     \<and> (\<not> is_cached_signature s (d_inode file') \<and> read_elf_header h = (Ptr elf_ex, tr0)
         \<and> read_section_table h elf_ex = (Inr elf_shdata, tr1) \<longrightarrow>
          mmap_check fuel cfg h s file' 0 allow_write_on_exit
            = (Some (DIGSIG_MODE cfg), allow_write_on_exit, s, tr0 @ tr1))
     \<and> DIGSIG_MODE cfg = (if SECURITY_DIGSIG_DEBUG cfg then 0 else - EPERM)"
  using find_wrong_size [OF assms, of h] find_no_section [of cfg elf_ex' elf_shdata' h]
  by (auto simp: mmap_check_def DIGSIG_MODE_def)


theorem wrong_size_signature_gets_default_mode_witness:
  "DIGSIG_ELF_SIG_SIZE cfg64_debug < 2 ^ 31
   \<and> signature_section_at cfg64_debug elf64_header (sig_section_header 3) 0
   \<and> declared_size elf64_header (sig_section_header 3) 0 \<noteq> DIGSIG_ELF_SIG_SIZE cfg64_debug
   \<and> find_signature cfg64_debug oversize_host elf64_header (sig_section_header 3) = (None, [])
   \<and> no_signature_section cfg64_debug elf64_header (replicate 64 0)
   \<and> find_signature cfg64_debug oversize_host elf64_header (replicate 64 0) = (None, [])
   \<and> \<not> is_cached_signature ready_state (d_inode exe)
   \<and> read_elf_header oversize_host = (Ptr elf64_header, [Kmalloc ElfHeader, KernelRead 0 64])
   \<and> read_section_table oversize_host elf64_header
       = (Inr (sig_section_header 3), [Kmalloc SectionTable, KernelRead 64 64])
   \<and> mmap_check 3 cfg64_debug oversize_host ready_state exe 0 True
       = (Some 0, True, ready_state,
          [Kmalloc ElfHeader, KernelRead 0 64, Kmalloc SectionTable, KernelRead 64 64])"
proof -
  have a: "DIGSIG_ELF_SIG_SIZE cfg64_debug < 2 ^ 31"
    by (simp add: cfg64_debug_fields)
  have c: "declared_size elf64_header (sig_section_header 3) 0
             \<noteq> DIGSIG_ELF_SIG_SIZE cfg64_debug"
    by (simp add: oversize_section cfg64_debug_fields)
  have z: "sh_type64 (Elf64_Shdr_at (replicate 64 0) 0) = 0"
    by (simp add: Elf64_Shdr_at_def field_def le_nat_eval)
  have n: "no_signature_section cfg64_debug elf64_header (replicate 64 0)"
    by (simp add: no_signature_section_def header_ok cfg64_debug_fields z)
  have k: "\<not> is_cached_signature ready_state (d_inode exe)"
    by (simp add: is_cached_signature_def ready_state_fields)
  have hd: "read_elf_header oversize_host
      = (Ptr elf64_header, [Kmalloc ElfHeader, KernelRead 0 64])"
    by (simp add: stage_header oversize_host_reads)
  have tb: "read_section_table oversize_host elf64_header
       = (Inr (sig_section_header 3), [Kmalloc SectionTable, KernelRead 64 64])"
    by (simp add: stage_table oversize_host_reads)
  from wrong_size_signature_gets_default_mode [OF a oversize_section(1) c,
      where h = oversize_host and elf_ex' = elf64_header and elf_shdata' = "replicate 64 0"
        and s = ready_state and file' = exe and fuel = 3 and allow_write_on_exit = True
        and ?tr0.0 = "[Kmalloc ElfHeader, KernelRead 0 64]"
        and ?tr1.0 = "[Kmalloc SectionTable, KernelRead 64 64]"]
    a oversize_section(1) c n k hd tb
  show ?thesis by (simp add: cfg64_debug_fields)
qed

section \<open>The execution gate\<close>


lemma read_elf_header_trace:
  "snd (read_elf_header h) = [Kmalloc ElfHeader]
   \<or> snd (read_elf_header h) = [Kmalloc ElfHeader, KernelRead 0 64]"
  by (simp add: read_elf_header_def Let_def sizeof_elf64_hdr_def)

lemma mmap_check_uncached_trace:
  assumes "\<not> is_cached_signature s (d_inode file')"
  shows "\<exists>tr. snd (snd (snd (mmap_check fuel cfg h s file' die_if_elf allow_write_on_exit)))
           = Kmalloc ElfHeader # tr"
proof -
  obtain p tr0 where rd: "read_elf_header h = (p, tr0)"
    by (cases "read_elf_header h")
  with read_elf_header_trace [of h] obtain tr0' where tr0: "tr0 = Kmalloc ElfHeader # tr0'"
    by auto
  with rd assms show ?thesis
    by (auto simp: mmap_check_def
          split: if_splits prod.splits ptr_result.splits sum.splits option.splits)
qed

lemma text_host_header:
  "read_elf_header text_host = (NULL, [Kmalloc ElfHeader, KernelRead 0 64])"
  by (simp add: read_elf_header_def text_host_def host_of_image_def read_image_def
        sizeof_elf64_hdr_def EI_CLASS_def ELFCLASS32_def field_def le_nat_eval
        elf_sanity_check64_def as_elf64_hdr_def SELFMAG_def ELFMAG_def)

lemma writer_state_fields:
  "g_init writer_state" "i_security writer_state = (\<lambda>_. 0)"
  "i_writecount writer_state (Suc 0) = 1"
  "f_security writer_state = (\<lambda>_. 0)" "sig_cache writer_state = {}"
  by (simp_all add: writer_state_def ready_state_fields)

text \<open>
  C7, as the claim states it, fails: inode 1 has an outstanding writer and the file is
  not ELF (a text file). The exec-map request is not denied outright: the hook reads the
  header, finds it is not ELF and returns 0 (allow).
\<close>

theorem writer_nonelf_counterexample:
  "digsig_mmap_file 3 cfg64 text_host writer_state (Some exe) VM_EXEC
     = (Some 0, writer_state, [Kmalloc ElfHeader, KernelRead 0 64])
   \<and> 0 < i_writecount writer_state (d_inode exe)"
  by (simp add: digsig_mmap_file_def digsig_deny_write_access_def Let_def mmap_check_def
        is_cached_signature_def exe_fields writer_state_fields text_host_header VM_EXEC_def
        ETXTBSY_def)

text \<open>
  C7, amended. For an exec-map request, made through a file that holds no lease yet, on
  an inode that has an outstanding writer: no lease is taken and the state is left as it
  was; the cache is looked up first and a cached inode is allowed at once; otherwise the
  header, and only the header, is read and checked: an ELF header gives \<^verbatim>\<open>-ETXTBSY\<close>
  (deny), a malformed one the error of the header reader (deny), and a file that is not
  ELF is allowed. In no case is the section table or the signature read, or anything
  hashed.
\<close>

theorem writer_blocks_elf_mapping:
  assumes "g_init s" and "reqprot AND VM_EXEC \<noteq> 0"
    and "f_dentry file'" and "d_name file' \<noteq> None" and "\<not> is_unprotected_file cfg file'"
    and "f_security s file' = 0"
    and "0 < i_writecount s (d_inode file')"
  shows "digsig_mmap_file fuel cfg h s (Some file') reqprot =
           (if is_cached_signature s (d_inode file') then (Some 0, s, [])
            else
              (case read_elf_header h of
                 (NULL, tr) \<Rightarrow> (Some 0, s, tr)
               | (ERR_PTR e, tr) \<Rightarrow> (Some e, s, tr)
               | (Ptr elf_ex, tr) \<Rightarrow> (Some (- ETXTBSY), s, tr)))
         \<and> (snd (read_elf_header h) = [Kmalloc ElfHeader]
              \<or> snd (read_elf_header h) = [Kmalloc ElfHeader, KernelRead 0 64])"
proof -
  have nz: "ETXTBSY \<noteq> 0"
    by (simp add: ETXTBSY_def)
  have deny: "digsig_deny_write_access s file' = (- ETXTBSY, s)"
    using assms(7) by (simp add: digsig_deny_write_access_def Let_def)
  have chk: "mmap_check fuel cfg h s file' (- ETXTBSY) False =
           (if is_cached_signature s (d_inode file') then (Some 0, False, s, [])
            else
              (case read_elf_header h of
                 (NULL, tr) \<Rightarrow> (Some 0, False, s, tr)
               | (ERR_PTR e, tr) \<Rightarrow> (Some e, False, s, tr)
               | (Ptr elf_ex, tr) \<Rightarrow> (Some (- ETXTBSY), False, s, tr)))"
    using nz by (auto simp: mmap_check_def split: prod.splits ptr_result.splits)
  have "digsig_mmap_file fuel cfg h s (Some file') reqprot =
           (if is_cached_signature s (d_inode file') then (Some 0, s, [])
            else
              (case read_elf_header h of
                 (NULL, tr) \<Rightarrow> (Some 0, s, tr)
               | (ERR_PTR e, tr) \<Rightarrow> (Some e, s, tr)
               | (Ptr elf_ex, tr) \<Rightarrow> (Some (- ETXTBSY), s, tr)))"
  proof (cases "is_cached_signature s (d_inode file')")
    case True
    with assms(1-6) show ?thesis
      by (auto simp: digsig_mmap_file_def deny chk nz)
  next
    case False
    obtain p tr where rd: "read_elf_header h = (p, tr)"
      by (cases "read_elf_header h")
    with False assms(1-6) show ?thesis
      by (cases p) (auto simp: digsig_mmap_file_def deny chk nz)
  qed
  with read_elf_header_trace [of h] show ?thesis by simp
qed

lemma signed_host_reads:
  "kmalloc signed_host a"
  "kernel_read signed_host 0 64 = (64, elf64_header)"
  "kernel_read signed_host 64 64 = (64, sig_section_header 2)"
  "kernel_read signed_host 128 2 = (2, [9, 7])"
  "kernel_read signed_host 0 128 = (128, elf64_header @ sig_section_header 2)"
  "kernel_read signed_host 128 128 = (2, 9 # 7 # replicate 126 0)"
  "i_size_read signed_host = 130"
  "\<not> digsig_is_revoked_sig signed_host sg"
  "digsig_sign_verify_init signed_host"
  "digsig_sign_verify_update signed_host hist b = 0"
  by (simp_all add: signed_host_def host_of_image_def read_header read_table read_sig
        read_block0 read_block1 length_elf64_image)

theorem writer_blocks_elf_mapping_witness:
  "g_init writer_state \<and> VM_EXEC AND VM_EXEC \<noteq> 0 \<and> f_dentry exe \<and> d_name exe \<noteq> None
   \<and> \<not> is_unprotected_file cfg64 exe \<and> f_security writer_state exe = 0
   \<and> 0 < i_writecount writer_state (d_inode exe)
   \<and> digsig_mmap_file 3 cfg64 signed_host writer_state (Some exe) VM_EXEC
       = (Some (- ETXTBSY), writer_state, [Kmalloc ElfHeader, KernelRead 0 64])"
proof -
  have a: "g_init writer_state" "VM_EXEC AND VM_EXEC \<noteq> 0" "f_dentry exe"
    "d_name exe \<noteq> None" "\<not> is_unprotected_file cfg64 exe" "f_security writer_state exe = 0"
    "0 < i_writecount writer_state (d_inode exe)"
    by (simp_all add: writer_state_fields exe_fields VM_EXEC_def)
  have c: "\<not> is_cached_signature writer_state (d_inode exe)"
    by (simp add: is_cached_signature_def writer_state_fields)
  have hd: "read_elf_header signed_host
      = (Ptr elf64_header, [Kmalloc ElfHeader, KernelRead 0 64])"
    by (simp add: stage_header signed_host_reads)
  from writer_blocks_elf_mapping [OF a, of 3 signed_host] a c hd
  show ?thesis by simp
qed

section \<open>Revocation\<close>

lemma revoked_signed_host_reads:
  "kmalloc revoked_signed_host a"
  "kernel_read revoked_signed_host 0 64 = (64, elf64_header)"
  "kernel_read revoked_signed_host 64 64 = (64, sig_section_header 2)"
  "kernel_read revoked_signed_host 128 2 = (2, [9, 7])"
  "digsig_is_revoked_sig revoked_signed_host [9, 7]"
  by (simp_all add: revoked_signed_host_def signed_host_reads)

text \<open>
  C3. A signature found in the revocation list is rejected at once: for every
  configuration, file and bound, \<^verbatim>\<open>digsig_verify_signature\<close> returns \<^verbatim>\<open>-EPERM\<close> and has
  made no host call at all: the crypto context is not initialised, no block of the file
  is read and nothing is hashed. At the gate, a request that reaches the verification
  with a revoked signature ends with \<^verbatim>\<open>-EPERM\<close> (deny), the cache is left as it was, and
  the only host calls are those that read the header, the section table and the
  signature.
\<close>

theorem revoked_signature_rejected_before_hashing:
  assumes "digsig_is_revoked_sig h sig_orig"
  shows "digsig_verify_signature fuel cfg h sig_orig sh_offset = (Some (- EPERM), [])
     \<and> - EPERM \<noteq> (0 :: int)
     \<and> (\<not> is_cached_signature s (d_inode file') \<and> read_elf_header h = (Ptr elf_ex, tr0)
         \<and> read_section_table h elf_ex = (Inr elf_shdata, tr1)
         \<and> find_signature cfg h elf_ex elf_shdata = (Some (sig_orig, sh_offset), tr2) \<longrightarrow>
          mmap_check fuel cfg h s file' 0 allow_write_on_exit
            = (Some (- EPERM), allow_write_on_exit, s, tr0 @ tr1 @ tr2))"
proof -
  have v: "digsig_verify_signature fuel cfg h sig_orig sh_offset = (Some (- EPERM), [])"
    using assms by (simp add: digsig_verify_signature_def)
  have nz: "EPERM \<noteq> 0"
    by (simp add: EPERM_def)
  from v nz show ?thesis
    by (auto simp: mmap_check_def)
qed

theorem revoked_signature_rejected_before_hashing_witness:
  "digsig_is_revoked_sig revoked_signed_host [9, 7]
   \<and> digsig_verify_signature 3 cfg64 revoked_signed_host [9, 7] 128 = (Some (- EPERM), [])
   \<and> \<not> is_cached_signature ready_state (d_inode exe)
   \<and> read_elf_header revoked_signed_host
       = (Ptr elf64_header, [Kmalloc ElfHeader, KernelRead 0 64])
   \<and> read_section_table revoked_signed_host elf64_header
       = (Inr (sig_section_header 2), [Kmalloc SectionTable, KernelRead 64 64])
   \<and> find_signature cfg64 revoked_signed_host elf64_header (sig_section_header 2)
       = (Some ([9, 7], 128), [Kmalloc SignatureBuffer, KernelRead 128 2])
   \<and> mmap_check 3 cfg64 revoked_signed_host ready_state exe 0 True
       = (Some (- EPERM), True, ready_state,
          [Kmalloc ElfHeader, KernelRead 0 64, Kmalloc SectionTable, KernelRead 64 64,
           Kmalloc SignatureBuffer, KernelRead 128 2])"
proof -
  have r: "digsig_is_revoked_sig revoked_signed_host [9, 7]"
    by (simp add: revoked_signed_host_reads)
  have k: "\<not> is_cached_signature ready_state (d_inode exe)"
    by (simp add: is_cached_signature_def ready_state_fields)
  have hd: "read_elf_header revoked_signed_host
      = (Ptr elf64_header, [Kmalloc ElfHeader, KernelRead 0 64])"
    by (simp add: stage_header revoked_signed_host_reads)
  have tb: "read_section_table revoked_signed_host elf64_header
       = (Inr (sig_section_header 2), [Kmalloc SectionTable, KernelRead 64 64])"
    by (simp add: stage_table revoked_signed_host_reads)
  have fs: "find_signature cfg64 revoked_signed_host elf64_header (sig_section_header 2)
       = (Some ([9, 7], 128), [Kmalloc SignatureBuffer, KernelRead 128 2])"
    by (simp add: stage_find revoked_signed_host_reads cfg64_fields)
  from revoked_signature_rejected_before_hashing [OF r, where fuel = 3 and cfg = cfg64
      and sh_offset = 128 and s = ready_state and file' = exe and elf_ex = elf64_header
      and ?tr0.0 = "[Kmalloc ElfHeader, KernelRead 0 64]"
      and elf_shdata = "sig_section_header 2"
      and ?tr1.0 = "[Kmalloc SectionTable, KernelRead 64 64]"
      and ?tr2.0 = "[Kmalloc SignatureBuffer, KernelRead 128 2]"
      and allow_write_on_exit = True]
    r k hd tb fs
  show ?thesis by simp
qed

section \<open>The validation cache\<close>

lemma zero_read_host_reads:
  "kmalloc zero_read_host a"
  "kernel_read zero_read_host 0 64 = (64, elf64_header)"
  "kernel_read zero_read_host 64 64 = (64, sig_section_header 2)"
  "kernel_read zero_read_host 128 2 = (2, [9, 7])"
  "kernel_read zero_read_host 0 128 = (0, replicate 128 0)"
  "i_size_read zero_read_host = 130"
  "\<not> digsig_is_revoked_sig zero_read_host sg"
  "digsig_sign_verify_init zero_read_host"
  by (simp_all add: zero_read_host_def signed_host_def host_of_image_def read_header read_table
        read_sig length_elf64_image)

text \<open>
  What holds of the cache in every call of the hook: it is left as it was, or the inode
  of the mapped file is added; and it is left as it was unless the hook returns 0.
\<close>

lemma mmap_caches_only_on_zero:
  assumes "digsig_mmap_file fuel cfg h s (Some file') reqprot = (r, s', tr)"
  shows "(sig_cache s' = sig_cache s \<or> sig_cache s' = insert (d_inode file') (sig_cache s))
     \<and> (r \<noteq> Some 0 \<longrightarrow> sig_cache s' = sig_cache s)"
proof -
  have deny: "sig_cache (snd (digsig_deny_write_access s0 file')) = sig_cache s0" for s0
    by (simp add: digsig_deny_write_access_def Let_def)
  have allow: "sig_cache (digsig_allow_write_access s0 file') = sig_cache s0" for s0
    by (simp add: digsig_allow_write_access_def Let_def)
  have chk: "(sig_cache s2 = sig_cache s1 \<or> sig_cache s2 = insert (d_inode file') (sig_cache s1))
       \<and> (r0 \<noteq> Some 0 \<longrightarrow> sig_cache s2 = sig_cache s1)"
    if "mmap_check fuel cfg h s1 file' d a = (r0, a', s2, tr0)" for s1 d a r0 a' s2 tr0
    using that
    by (auto simp: mmap_check_def digsig_cache_signature_def
          split: if_splits prod.splits ptr_result.splits sum.splits option.splits)
  show ?thesis
  proof (cases "g_init s \<and> reqprot AND VM_EXEC \<noteq> 0 \<and> f_dentry file' \<and> d_name file' \<noteq> None
                 \<and> \<not> is_unprotected_file cfg file'")
    case False
    with assms show ?thesis
      by (auto simp: digsig_mmap_file_def split: if_splits)
  next
    case True
    define pre where "pre =
      (if f_security s file' = 0 then
         (let (retval, s0) = digsig_deny_write_access s file'
          in if retval \<noteq> 0 then (retval, False, s0) else (0, True, s0))
       else (0, False, s))"
    obtain d a s1 where pre: "pre = (d, a, s1)"
      by (cases pre)
    have s1: "sig_cache s1 = sig_cache s"
      using pre deny [of s]
      by (auto simp: pre_def Let_def split: if_splits prod.splits)
    obtain r0 a' s2 tr0 where mc: "mmap_check fuel cfg h s1 file' d a = (r0, a', s2, tr0)"
      by (cases "mmap_check fuel cfg h s1 file' d a")
    from True assms pre mc
    have res: "r = r0 \<and> (s' = s2 \<or> s' = digsig_allow_write_access s2 file')"
      by (auto simp: digsig_mmap_file_def pre_def [symmetric] split: option.splits if_splits)
    with chk [OF mc] s1 allow [of s2] show ?thesis
      by auto
  qed
qed

text \<open>
  C8. The cache also receives an inode whose verification never compared a signature.
  On the signed image, the read of the first block returns 0 bytes: the loop leaves
  with that 0 as the result of \<^verbatim>\<open>digsig_verify_signature\<close>, no block is hashed and the
  final comparison is not called, yet the hook returns 0 (allow) and inode 1 is in the
  cache afterwards.
\<close>

theorem zero_byte_read_is_cached:
  "digsig_mmap_file (Suc 0) cfg64 zero_read_host ready_state (Some exe) VM_EXEC
     = (Some 0,
        ready_state\<lparr>i_security := (\<lambda>_. 0)(1 := 1), f_security := (\<lambda>_. 0)(exe := 1),
                    sig_cache := {1}\<rparr>,
        [Kmalloc ElfHeader, KernelRead 0 64, Kmalloc SectionTable, KernelRead 64 64,
         Kmalloc SignatureBuffer, KernelRead 128 2, VerifyInit, Kmalloc ReadBlocks,
         KernelRead 0 128])
   \<and> kernel_read zero_read_host 0 128 = (0, replicate 128 0)
   \<and> i_size_read zero_read_host = 130"
proof -
  have vfy: "digsig_verify_signature (Suc 0) cfg64 zero_read_host [9, 7] 128
      = (Some 0, [VerifyInit, Kmalloc ReadBlocks, KernelRead 0 128])"
    by (simp add: digsig_verify_signature_def zero_read_host_reads cfg64_fields)
  have chk: "mmap_check (Suc 0) cfg64 zero_read_host s exe 0 True
      = (Some 0, False, digsig_cache_signature s (d_inode exe),
         [Kmalloc ElfHeader, KernelRead 0 64, Kmalloc SectionTable, KernelRead 64 64,
          Kmalloc SignatureBuffer, KernelRead 128 2, VerifyInit, Kmalloc ReadBlocks,
          KernelRead 0 128])"
    if "sig_cache s = {}" for s
    using that
    by (simp add: mmap_check_def is_cached_signature_def stage_header stage_table stage_find
          zero_read_host_reads cfg64_fields vfy)
  show ?thesis
    by (simp add: digsig_mmap_file_def digsig_deny_write_access_def Let_def exe_fields
          ready_state_fields chk VM_EXEC_def digsig_cache_signature_def zero_read_host_reads)
qed


section \<open>Cache invalidation\<close>




















section \<open>The write/exec guard\<close>




























end
